theory Spec2Isabelle
  imports Complex_Main
begin

section \<open>Runtime values (pyle\_bytecode.py, pyle\_builtins.py)\<close>

text \<open>
  The VM is written in Python and uses host objects as runtime values: \<open>int\<close>,
  \<open>float\<close>, \<open>bool\<close>, \<open>str\<close>, \<open>None\<close>, \<open>list\<close>, the dataclasses
  \<open>Range\<close> and \<open>PyleFunction\<close>, and host iterators.  A float is represented by the real
  number it denotes (rounding, infinities and NaN are not represented, nor is the
  exhaustion of the host's memory).  A list object of
  the constant pool is represented by its contents (\<open>VList\<close>); a list object allocated
  while the VM runs is a reference into the store of the VM (\<open>VRef\<close>), because
  \<open>OP_INDEX_SET\<close> mutates it in place; an iterator object is a reference as well.
\<close>

datatype native =
    native_echo | native_len | native_scan | native_perf_counter
  | native_import_py | native_get_attr

record PyleFunction =
  fn_name :: string
  arity :: int
  start_ip :: "int option"
  native_fn :: "native option"

datatype pyval =
    VInt int
  | VFloat real
  | VBool bool
  | VStr string
  | VNone
  | VList "pyval list"
  | VRef nat
  | VRange pyval pyval pyval
  | VIter nat
  | VFunc PyleFunction

text \<open>
  Python's \<open>==\<close> on these objects: numbers of the three numeric types compare by their
  numeric value (\<open>1 == 1.0 == True\<close>), strings and \<open>None\<close> by content, lists
  element-wise, the dataclasses field-wise, everything else by identity.  \<open>canon\<close>
  maps a value to the representative of its \<open>==\<close>-class.
\<close>

fun canon :: "pyval \<Rightarrow> pyval" where
  "canon (VInt i) = VFloat (of_int i)"
| "canon (VFloat r) = VFloat r"
| "canon (VBool b) = VFloat (if b then 1 else 0)"
| "canon (VStr s) = VStr s"
| "canon VNone = VNone"
| "canon (VList xs) = VList (map canon xs)"
| "canon (VRef r) = VRef r"
| "canon (VRange a b c) = VRange (canon a) (canon b) (canon c)"
| "canon (VIter i) = VIter i"
| "canon (VFunc f) = VFunc f"

definition py_eq :: "pyval \<Rightarrow> pyval \<Rightarrow> bool" where
  "py_eq a b \<longleftrightarrow> canon a = canon b"

text \<open>\<open>isinstance(v, list)\<close>.\<close>

fun is_list :: "pyval \<Rightarrow> bool" where
  "is_list (VList xs) = True"
| "is_list (VRef r) = True"
| "is_list v = False"

section \<open>Constant pool (Compiler.add\_constant)\<close>

text \<open>
  \<open>first_index P xs\<close> is the loop \<open>for i, c in enumerate(xs): if P(c): return i\<close>;
  \<open>list.index(value)\<close> is \<open>first_index (\<lambda>c. c == value)\<close> and raises
  \<open>ValueError\<close> (here \<open>None\<close>) when there is no such entry.
\<close>

fun first_index :: "('a \<Rightarrow> bool) \<Rightarrow> 'a list \<Rightarrow> nat option" where
  "first_index P [] = None"
| "first_index P (x # xs) =
     (if P x then Some 0 else map_option Suc (first_index P xs))"

definition index_or_append :: "pyval \<Rightarrow> pyval list \<Rightarrow> nat \<times> pyval list" where
  "index_or_append v cs =
     (case first_index (\<lambda>c. py_eq c v) cs of
        Some i \<Rightarrow> (i, cs)
      | None \<Rightarrow> (length (cs @ [v]) - 1, cs @ [v]))"

definition add_constant_pool :: "pyval \<Rightarrow> pyval list \<Rightarrow> nat \<times> pyval list" where
  "add_constant_pool v cs =
     (if is_list v then
        (case first_index (\<lambda>c. is_list c \<and> py_eq c v) cs of
           Some i \<Rightarrow> (i, cs)
         | None \<Rightarrow> index_or_append v cs)
      else index_or_append v cs)"


section \<open>Bytecode (pyle\_bytecode.py)\<close>

datatype OpCode =
    OP_CONST | OP_DEF_GLOBAL | OP_GET_GLOBAL | OP_SET_GLOBAL | OP_DEF_CONST_GLOBAL
  | OP_DEF_LOCAL | OP_GET_LOCAL | OP_SET_LOCAL | OP_DEF_CONST_LOCAL
  | OP_ADD | OP_SUBTRACT | OP_MULTIPLY | OP_DIVIDE | OP_MODULO
  | OP_NEGATE | OP_NOT
  | OP_EQUAL | OP_NOT_EQUAL | OP_GREATER | OP_GREATER_EQUAL | OP_LESS | OP_LESS_EQUAL
  | OP_AND | OP_OR
  | OP_TRUE | OP_FALSE | OP_NONE
  | OP_BUILD_RANGE | OP_ITER_NEW | OP_ITER_NEXT_OR_JUMP | OP_BUILD_LIST
  | OP_ENTER_SCOPE | OP_EXIT_SCOPE
  | OP_JUMP_IF_FALSE | OP_JUMP | OP_POP
  | OP_INDEX_GET | OP_INDEX_SET | OP_GET_ATTR
  | OP_CALL | OP_BUILD_KWARGS | OP_CALL_KW | OP_RETURN
  | OP_HALT

text \<open>
  The operand of an instruction is \<open>None\<close>, an integer, or (for \<open>OP_CALL_KW\<close>) a pair
  of integers.  The \<open>token\<close> field of an instruction is never set by the compiler
  (\<open>emit_instruction\<close> calls \<open>Instruction(opcode, operand)\<close>) and never read by the VM.
\<close>

datatype Operand = NoOperand | IntOperand int | PairOperand int int

record Instruction =
  opcode :: OpCode
  operand :: Operand

section \<open>Tokens and syntax trees (pyle\_types.py, pyle\_ast.py)\<close>

datatype TokenType =
    T_INT | T_FLOAT | T_STRING | T_KEYWORD | T_IDENT | T_DOT
  | T_L_PAREN | T_R_PAREN | T_L_BRACKET | T_R_BRACKET | T_L_CURLY_BRACE | T_R_CURLY_BRACE
  | T_L_SQ_BRACKET | T_R_SQ_BRACKET | T_COMMA
  | T_PLUS | T_MINUS | T_MUL | T_DIV | T_MOD | T_EOF | T_ERROR
  | T_SEMICOLON | T_COLON
  | T_GT | T_GTE | T_LT | T_LTE | T_EQ | T_BANG | T_NEQ | T_ASSIGN

text \<open>\<open>kind.name\<close>: the name of the enum member.\<close>

fun kind_name :: "TokenType \<Rightarrow> string" where
  "kind_name T_INT = ''INT''"
| "kind_name T_FLOAT = ''FLOAT''"
| "kind_name T_STRING = ''STRING''"
| "kind_name T_KEYWORD = ''KEYWORD''"
| "kind_name T_IDENT = ''IDENT''"
| "kind_name T_DOT = ''DOT''"
| "kind_name T_L_PAREN = ''L_PAREN''"
| "kind_name T_R_PAREN = ''R_PAREN''"
| "kind_name T_L_BRACKET = ''L_BRACKET''"
| "kind_name T_R_BRACKET = ''R_BRACKET''"
| "kind_name T_L_CURLY_BRACE = ''L_CURLY_BRACE''"
| "kind_name T_R_CURLY_BRACE = ''R_CURLY_BRACE''"
| "kind_name T_L_SQ_BRACKET = ''L_SQ_BRACKET''"
| "kind_name T_R_SQ_BRACKET = ''R_SQ_BRACKET''"
| "kind_name T_COMMA = ''COMMA''"
| "kind_name T_PLUS = ''PLUS''"
| "kind_name T_MINUS = ''MINUS''"
| "kind_name T_MUL = ''MUL''"
| "kind_name T_DIV = ''DIV''"
| "kind_name T_MOD = ''MOD''"
| "kind_name T_EOF = ''EOF''"
| "kind_name T_ERROR = ''ERROR''"
| "kind_name T_SEMICOLON = ''SEMICOLON''"
| "kind_name T_COLON = ''COLON''"
| "kind_name T_GT = ''GT''"
| "kind_name T_GTE = ''GTE''"
| "kind_name T_LT = ''LT''"
| "kind_name T_LTE = ''LTE''"
| "kind_name T_EQ = ''EQ''"
| "kind_name T_BANG = ''BANG''"
| "kind_name T_NEQ = ''NEQ''"
| "kind_name T_ASSIGN = ''ASSIGN''"

text \<open>
  A token: the compiler reads \<open>kind\<close> and \<open>value\<close> only (\<open>loc\<close> and
  \<open>source_name\<close> serve error messages).
\<close>

record Token =
  kind :: TokenType
  tvalue :: string

text \<open>
  The node classes of \<open>pyle_ast.py\<close>.  Of the \<open>token\<close> field that every node
  inherits, the compiler's control flow reads only that of \<open>Block\<close> (present or
  \<open>None\<close>); elsewhere it is passed to \<open>emit_instruction\<close> for the token map, which
  nothing reads.  A field that may be \<open>None\<close> is an option.
\<close>

datatype node =
    Block "Token option" "node list"
  | Number pyval
  | String string
  | Boolean bool
  | VariableExpr Token
  | UnaryOp Token node
  | BinaryOp node Token node
  | LogicalOp node Token node
  | ComparisonOp node Token node
  | VarDeclareStmt Token "node option" bool
  | AssignStmt Token node
  | IfStmt node node "node option"
  | WhileStmt node node
  | BreakStmt
  | ContinueStmt
  | RangeSpecifier node node "node option"
  | ForInStmt Token node node
  | ArrayLiteral "node list"
  | FunctionDefStmt Token "Token list" node
  | FunctionExpr "Token list" node
  | CallExpr node "node list" "(Token \<times> node) list"
  | ReturnStmt "node option"
  | IndexExpr node node
  | AssignIndexStmt node node node
  | DotExpr node Token

text \<open>
  \<open>isinstance(n, Expr)\<close>: the classes declared as subclasses of \<open>Expr\<close>.
  \<open>Block\<close> and \<open>RangeSpecifier\<close> derive from \<open>ASTNode\<close>, the statements from
  \<open>Stmt\<close>.
\<close>

fun is_Expr :: "node \<Rightarrow> bool" where
  "is_Expr (Number v) = True"
| "is_Expr (String s) = True"
| "is_Expr (Boolean b) = True"
| "is_Expr (VariableExpr t) = True"
| "is_Expr (UnaryOp t e) = True"
| "is_Expr (BinaryOp l t r) = True"
| "is_Expr (LogicalOp l t r) = True"
| "is_Expr (ComparisonOp l t r) = True"
| "is_Expr (ArrayLiteral es) = True"
| "is_Expr (FunctionExpr ps b) = True"
| "is_Expr (CallExpr c as ks) = True"
| "is_Expr (IndexExpr c i) = True"
| "is_Expr (DotExpr e t) = True"
| "is_Expr n = False"

section \<open>Native function registry (pyle\_builtins.py)\<close>

text \<open>The dictionary \<open>BUILTINS\<close>, in insertion order.\<close>

definition BUILTINS :: "(string \<times> PyleFunction) list" where
  "BUILTINS =
    [(''echo'', \<lparr>fn_name = ''echo'', arity = -1, start_ip = None, native_fn = Some native_echo\<rparr>),
     (''len'', \<lparr>fn_name = ''len'', arity = 1, start_ip = None, native_fn = Some native_len\<rparr>),
     (''scan'', \<lparr>fn_name = ''scan'', arity = -1, start_ip = None, native_fn = Some native_scan\<rparr>),
     (''perf_counter'', \<lparr>fn_name = ''perf_counter'', arity = 0, start_ip = None,
        native_fn = Some native_perf_counter\<rparr>),
     (''importpy'', \<lparr>fn_name = ''importpy'', arity = 1, start_ip = None,
        native_fn = Some native_import_py\<rparr>),
     (''get_attr'', \<lparr>fn_name = ''get_attr'', arity = 2, start_ip = None,
        native_fn = Some native_get_attr\<rparr>)]"

definition builtin_names :: "string list" where
  "builtin_names = map fst BUILTINS"

section \<open>Compiler (pyle\_compiler.py)\<close>

definition OPERATION_INTS :: "(string \<times> OpCode) list" where
  "OPERATION_INTS =
    [(''PLUS'', OP_ADD), (''MINUS'', OP_SUBTRACT), (''MUL'', OP_MULTIPLY),
     (''DIV'', OP_DIVIDE), (''MOD'', OP_MODULO),
     (''and'', OP_AND), (''or'', OP_OR),
     (''EQ'', OP_EQUAL), (''NEQ'', OP_NOT_EQUAL), (''GT'', OP_GREATER),
     (''GTE'', OP_GREATER_EQUAL), (''LT'', OP_LESS), (''LTE'', OP_LESS_EQUAL)]"

text \<open>
  The compiler object.  \<open>token_map\<close> is written by \<open>emit_instruction\<close> and read by
  nothing, so it is left out.  The two patch stacks are Python lists: the innermost loop
  is the last element.
\<close>

record Compiler =
  bytecode_chunk :: "Instruction list"
  constants :: "pyval list"
  scope_depth :: int
  loop_level :: int
  loop_start_patches :: "nat list list"
  loop_end_patches :: "nat list list"

text \<open>The exceptions the compiler raises.\<close>

datatype compile_error =
    UnsupportedUnaryOperator
  | NotImplementedError
  | BreakOutsideLoop
  | ContinueOutsideLoop
  | PatchIndexError

definition add_constant :: "pyval \<Rightarrow> Compiler \<Rightarrow> nat \<times> Compiler" where
  "add_constant v s =
     (let (i, cs) = add_constant_pool v (constants s) in (i, s\<lparr>constants := cs\<rparr>))"

definition emit_instruction :: "OpCode \<Rightarrow> Operand \<Rightarrow> Compiler \<Rightarrow> nat \<times> Compiler" where
  "emit_instruction opc opd s =
     (length (bytecode_chunk s),
      s\<lparr>bytecode_chunk := bytecode_chunk s @ [\<lparr>opcode = opc, operand = opd\<rparr>]\<rparr>)"

text \<open>\<open>emit\<close> is \<open>emit_instruction\<close> with the returned index dropped.\<close>

definition emit :: "OpCode \<Rightarrow> Operand \<Rightarrow> Compiler \<Rightarrow> Compiler" where
  "emit opc opd s = snd (emit_instruction opc opd s)"

text \<open>
  \<open>emit_const opc v\<close> is \<open>emit_instruction(opc, self.add_constant(v))\<close>: the constant
  is added first, then the instruction is emitted with its index.
\<close>

definition emit_const :: "OpCode \<Rightarrow> pyval \<Rightarrow> Compiler \<Rightarrow> Compiler" where
  "emit_const opc v s =
     (let (i, s1) = add_constant v s in emit opc (IntOperand (int i)) s1)"

text \<open>
  \<open>self.bytecode_chunk[i].operand = t\<close>; an index outside the chunk raises
  \<open>IndexError\<close>.
\<close>

definition set_operand :: "nat \<Rightarrow> int \<Rightarrow> Compiler \<Rightarrow> compile_error + Compiler" where
  "set_operand i t s =
     (if i < length (bytecode_chunk s)
      then Inr (s\<lparr>bytecode_chunk :=
                  (bytecode_chunk s)[i := (bytecode_chunk s ! i)\<lparr>operand := IntOperand t\<rparr>]\<rparr>)
      else Inl PatchIndexError)"

text \<open>\<open>patch_jump(i, t)\<close>; with \<open>t = None\<close> the target is the current length.\<close>

definition patch_jump :: "nat \<Rightarrow> int option \<Rightarrow> Compiler \<Rightarrow> compile_error + Compiler" where
  "patch_jump i t s =
     set_operand i (case t of Some ip \<Rightarrow> ip | None \<Rightarrow> int (length (bytecode_chunk s))) s"

text \<open>\<open>for patch_idx in ps: self.bytecode_chunk[patch_idx].operand = t\<close>.\<close>

fun set_operands :: "nat list \<Rightarrow> int \<Rightarrow> Compiler \<Rightarrow> compile_error + Compiler" where
  "set_operands [] t s = Inr s"
| "set_operands (i # ps) t s =
     (case set_operand i t s of Inl e \<Rightarrow> Inl e | Inr s1 \<Rightarrow> set_operands ps t s1)"

text \<open>\<open>stack[-1]\<close> of a patch stack; \<open>IndexError\<close> on the empty stack.\<close>

definition top_patches :: "nat list list \<Rightarrow> compile_error + nat list" where
  "top_patches st = (if st = [] then Inl PatchIndexError else Inr (last st))"

text \<open>\<open>stack[-1].append(i)\<close>.\<close>

definition append_top :: "nat \<Rightarrow> nat list list \<Rightarrow> compile_error + nat list list" where
  "append_top i st =
     (if st = [] then Inl PatchIndexError else Inr (butlast st @ [last st @ [i]]))"

text \<open>
  \<open>for param_token in reversed(params): emit(OP_DEF_LOCAL, add_constant(param_token.value))\<close>,
  called with the list already reversed.
\<close>

fun emit_params :: "Token list \<Rightarrow> Compiler \<Rightarrow> Compiler" where
  "emit_params [] s = s"
| "emit_params (p # ps) s = emit_params ps (emit_const OP_DEF_LOCAL (VStr (tvalue p)) s)"

text \<open>\<open>_initialize_builtins\<close>, as a loop over the items of the registry.\<close>

fun initialize_builtins :: "(string \<times> PyleFunction) list \<Rightarrow> Compiler \<Rightarrow> Compiler" where
  "initialize_builtins [] s = s"
| "initialize_builtins ((name, fn_obj) # rest) s =
     (let (fn_idx, s1) = add_constant (VFunc fn_obj) s;
          (name_idx, s2) = add_constant (VStr name) s1;
          s3 = emit OP_CONST (IntOperand (int fn_idx)) s2;
          s4 = emit OP_DEF_GLOBAL (IntOperand (int name_idx)) s3
      in initialize_builtins rest s4)"

text \<open>
  \<open>_compile_node\<close> dispatches on the class of the node to the \<open>visit_\<close> methods;
  each equation below is one of them.  The compiler object is passed in and returned;
  a raised exception is \<open>Inl\<close> and ends the compilation.  The loops over statement,
  element, argument and keyword lists are the three list functions.
\<close>

fun compile_node :: "node \<Rightarrow> Compiler \<Rightarrow> compile_error + Compiler"
  and compile_statements :: "node list \<Rightarrow> Compiler \<Rightarrow> compile_error + Compiler"
  and compile_nodes :: "node list \<Rightarrow> Compiler \<Rightarrow> compile_error + Compiler"
  and compile_keywords :: "(Token \<times> node) list \<Rightarrow> Compiler \<Rightarrow> compile_error + Compiler"
where
  \<comment> \<open>\<open>visit_Block\<close>\<close>
  "compile_node (Block tok statements) s =
     (if tok \<noteq> None then
        (case compile_statements statements
                (emit OP_ENTER_SCOPE NoOperand (s\<lparr>scope_depth := scope_depth s + 1\<rparr>)) of
           Inl e \<Rightarrow> Inl e
         | Inr s1 \<Rightarrow>
             (let s2 = emit OP_EXIT_SCOPE NoOperand s1
              in Inr (s2\<lparr>scope_depth := scope_depth s2 - 1\<rparr>)))
      else compile_statements statements s)"
  \<comment> \<open>\<open>visit_Number\<close>, \<open>visit_String\<close>, \<open>visit_Boolean\<close>\<close>
| "compile_node (Number v) s = Inr (emit_const OP_CONST v s)"
| "compile_node (String str) s = Inr (emit_const OP_CONST (VStr str) s)"
| "compile_node (Boolean b) s =
     Inr (if b then emit OP_TRUE NoOperand s else emit OP_FALSE NoOperand s)"
  \<comment> \<open>\<open>visit_VariableExpr\<close>\<close>
| "compile_node (VariableExpr name) s =
     (let (name_idx, s1) = add_constant (VStr (tvalue name)) s
      in if scope_depth s1 > 0 \<and> tvalue name \<notin> set builtin_names
         then Inr (emit OP_GET_LOCAL (IntOperand (int name_idx)) s1)
         else Inr (emit OP_GET_GLOBAL (IntOperand (int name_idx)) s1))"
  \<comment> \<open>\<open>visit_UnaryOp\<close>\<close>
| "compile_node (UnaryOp op e) s =
     (case compile_node e s of
        Inl err \<Rightarrow> Inl err
      | Inr s1 \<Rightarrow>
          if kind op = T_MINUS then Inr (emit OP_NEGATE NoOperand s1)
          else if kind op = T_KEYWORD \<and> tvalue op = ''not'' then Inr (emit OP_NOT NoOperand s1)
          else Inl UnsupportedUnaryOperator)"
  \<comment> \<open>\<open>visit_BinaryOp\<close>\<close>
| "compile_node (BinaryOp l op r) s =
     (case compile_node l s of
        Inl err \<Rightarrow> Inl err
      | Inr s1 \<Rightarrow>
          (case compile_node r s1 of
             Inl err \<Rightarrow> Inl err
           | Inr s2 \<Rightarrow>
               (case map_of OPERATION_INTS (kind_name (kind op)) of
                  None \<Rightarrow> Inl NotImplementedError
                | Some opc \<Rightarrow> Inr (emit opc NoOperand s2))))"
  \<comment> \<open>\<open>visit_LogicalOp\<close>\<close>
| "compile_node (LogicalOp l op r) s =
     (if tvalue op = ''or'' then
        (case compile_node l s of
           Inl err \<Rightarrow> Inl err
         | Inr s1 \<Rightarrow>
             (case compile_node l s1 of
                Inl err \<Rightarrow> Inl err
              | Inr s2 \<Rightarrow>
                  (case compile_node r s2 of
                     Inl err \<Rightarrow> Inl err
                   | Inr s3 \<Rightarrow>
                       (case map_of OPERATION_INTS (tvalue op) of
                          None \<Rightarrow> Inl NotImplementedError
                        | Some opc \<Rightarrow> Inr (emit opc NoOperand s3)))))
      else if tvalue op = ''and'' then
        (case compile_node l s of
           Inl err \<Rightarrow> Inl err
         | Inr s1 \<Rightarrow>
             (case compile_node r s1 of
                Inl err \<Rightarrow> Inl err
              | Inr s2 \<Rightarrow>
                  (case map_of OPERATION_INTS (tvalue op) of
                     None \<Rightarrow> Inl NotImplementedError
                   | Some opc \<Rightarrow> Inr (emit opc NoOperand s2))))
      else Inl NotImplementedError)"
  \<comment> \<open>\<open>visit_ComparisonOp\<close>\<close>
| "compile_node (ComparisonOp l op r) s =
     (case compile_node l s of
        Inl err \<Rightarrow> Inl err
      | Inr s1 \<Rightarrow>
          (case compile_node r s1 of
             Inl err \<Rightarrow> Inl err
           | Inr s2 \<Rightarrow>
               (case map_of OPERATION_INTS (kind_name (kind op)) of
                  None \<Rightarrow> Inl NotImplementedError
                | Some opc \<Rightarrow> Inr (emit opc NoOperand s2))))"
  \<comment> \<open>\<open>visit_VarDeclareStmt\<close>\<close>
| "compile_node (VarDeclareStmt name initializer is_const) s =
     (case (case initializer of
              Some e \<Rightarrow> compile_node e s
            | None \<Rightarrow> Inr (emit_const OP_CONST VNone s)) of
        Inl err \<Rightarrow> Inl err
      | Inr s1 \<Rightarrow>
          (let (name_idx, s2) = add_constant (VStr (tvalue name)) s1
           in if scope_depth s2 > 0 then
                Inr (emit (if is_const then OP_DEF_CONST_LOCAL else OP_DEF_LOCAL)
                       (IntOperand (int name_idx)) s2)
              else
                Inr (emit OP_DEF_GLOBAL (IntOperand (int name_idx))
                       (emit (if is_const then OP_DEF_CONST_GLOBAL else OP_DEF_GLOBAL)
                          (IntOperand (int name_idx)) s2))))"
  \<comment> \<open>\<open>visit_AssignStmt\<close>\<close>
| "compile_node (AssignStmt name e) s =
     (case compile_node e s of
        Inl err \<Rightarrow> Inl err
      | Inr s1 \<Rightarrow>
          (let (name_idx, s2) = add_constant (VStr (tvalue name)) s1
           in if scope_depth s2 > 0
              then Inr (emit OP_SET_LOCAL (IntOperand (int name_idx)) s2)
              else Inr (emit OP_SET_GLOBAL (IntOperand (int name_idx)) s2)))"
  \<comment> \<open>\<open>visit_IfStmt\<close>\<close>
| "compile_node (IfStmt condition then_branch else_branch) s =
     (case compile_node condition s of
        Inl err \<Rightarrow> Inl err
      | Inr s1 \<Rightarrow>
          (let (jump_if_false_idx, s2) = emit_instruction OP_JUMP_IF_FALSE (IntOperand 99999) s1
           in case compile_node then_branch s2 of
                Inl err \<Rightarrow> Inl err
              | Inr s3 \<Rightarrow>
                  (case else_branch of
                     None \<Rightarrow> patch_jump jump_if_false_idx None s3
                   | Some eb \<Rightarrow>
                       (let (jump_over_else_idx, s4) =
                              emit_instruction OP_JUMP (IntOperand 99999) s3
                        in case patch_jump jump_if_false_idx None s4 of
                             Inl err \<Rightarrow> Inl err
                           | Inr s5 \<Rightarrow>
                               (case compile_node eb s5 of
                                  Inl err \<Rightarrow> Inl err
                                | Inr s6 \<Rightarrow> patch_jump jump_over_else_idx None s6)))))"
  \<comment> \<open>\<open>visit_WhileStmt\<close>\<close>
| "compile_node (WhileStmt condition body) s =
     (let s0 = s\<lparr>loop_level := loop_level s + 1,
                 loop_start_patches := loop_start_patches s @ [[]],
                 loop_end_patches := loop_end_patches s @ [[]]\<rparr>;
          loop_start_ip = int (length (bytecode_chunk s0))
      in case compile_node condition s0 of
           Inl err \<Rightarrow> Inl err
         | Inr s1 \<Rightarrow>
             (let (exit_loop_jump_idx, s2) =
                    emit_instruction OP_JUMP_IF_FALSE (IntOperand 99999) s1
              in case compile_node body s2 of
                   Inl err \<Rightarrow> Inl err
                 | Inr s3 \<Rightarrow>
                     (case top_patches (loop_start_patches s3) of
                        Inl err \<Rightarrow> Inl err
                      | Inr starts \<Rightarrow>
                          (case set_operands starts loop_start_ip s3 of
                             Inl err \<Rightarrow> Inl err
                           | Inr s4 \<Rightarrow>
                               (let s5 = emit OP_JUMP (IntOperand loop_start_ip) s4
                                in case patch_jump exit_loop_jump_idx None s5 of
                                     Inl err \<Rightarrow> Inl err
                                   | Inr s6 \<Rightarrow>
                                       (case top_patches (loop_end_patches s6) of
                                          Inl err \<Rightarrow> Inl err
                                        | Inr ends \<Rightarrow>
                                            (case set_operands ends
                                                    (int (length (bytecode_chunk s5))) s6 of
                                               Inl err \<Rightarrow> Inl err
                                             | Inr s7 \<Rightarrow>
                                                 Inr (s7\<lparr>loop_start_patches :=
                                                            butlast (loop_start_patches s7),
                                                          loop_end_patches :=
                                                            butlast (loop_end_patches s7),
                                                          loop_level := loop_level s7 - 1\<rparr>))))))))"
  \<comment> \<open>\<open>visit_BreakStmt\<close>, \<open>visit_ContinueStmt\<close>\<close>
| "compile_node BreakStmt s =
     (if loop_level s = 0 then Inl BreakOutsideLoop
      else
        (let (jump_idx, s1) = emit_instruction OP_JUMP (IntOperand 99999) s
         in case append_top jump_idx (loop_end_patches s1) of
              Inl err \<Rightarrow> Inl err
            | Inr st \<Rightarrow> Inr (s1\<lparr>loop_end_patches := st\<rparr>)))"
| "compile_node ContinueStmt s =
     (if loop_level s = 0 then Inl ContinueOutsideLoop
      else
        (let (jump_idx, s1) = emit_instruction OP_JUMP (IntOperand 99999) s
         in case append_top jump_idx (loop_start_patches s1) of
              Inl err \<Rightarrow> Inl err
            | Inr st \<Rightarrow> Inr (s1\<lparr>loop_start_patches := st\<rparr>)))"
  \<comment> \<open>\<open>visit_RangeSpecifier\<close>\<close>
| "compile_node (RangeSpecifier start end_expr step) s =
     (case compile_node start s of
        Inl err \<Rightarrow> Inl err
      | Inr s1 \<Rightarrow>
          (case compile_node end_expr s1 of
             Inl err \<Rightarrow> Inl err
           | Inr s2 \<Rightarrow>
               (case (case step of
                        Some e \<Rightarrow> compile_node e s2
                      | None \<Rightarrow> Inr (emit_const OP_CONST (VInt 1) s2)) of
                  Inl err \<Rightarrow> Inl err
                | Inr s3 \<Rightarrow> Inr (emit OP_BUILD_RANGE NoOperand s3))))"
  \<comment> \<open>\<open>visit_ForInStmt\<close>\<close>
| "compile_node (ForInStmt loop_variable iterable body) s =
     (let s0 = s\<lparr>loop_level := loop_level s + 1,
                 loop_end_patches := loop_end_patches s @ [[]],
                 loop_start_patches := loop_start_patches s @ [[]],
                 scope_depth := scope_depth s + 1\<rparr>;
          s1 = emit OP_ENTER_SCOPE NoOperand s0
      in case compile_node iterable s1 of
           Inl err \<Rightarrow> Inl err
         | Inr s2 \<Rightarrow>
             (let s3 = emit OP_ITER_NEW NoOperand s2;
                  (name_idx, s4) = add_constant (VStr (tvalue loop_variable)) s3;
                  s5 = emit_const OP_CONST VNone s4;
                  s6 = emit OP_DEF_LOCAL (IntOperand (int name_idx)) s5;
                  loop_iteration_start_ip = int (length (bytecode_chunk s6));
                  (jump_if_exhausted_idx, s7) =
                    emit_instruction OP_ITER_NEXT_OR_JUMP (IntOperand 99999) s6;
                  s8 = emit OP_SET_LOCAL (IntOperand (int name_idx)) s7
              in case compile_node body s8 of
                   Inl err \<Rightarrow> Inl err
                 | Inr s9 \<Rightarrow>
                     (let s10 = emit OP_JUMP (IntOperand loop_iteration_start_ip) s9;
                          break_handler_ip = int (length (bytecode_chunk s10));
                          s11 = emit OP_POP NoOperand s10
                      in case top_patches (loop_end_patches s11) of
                           Inl err \<Rightarrow> Inl err
                         | Inr breaks \<Rightarrow>
                             (case set_operands breaks break_handler_ip s11 of
                                Inl err \<Rightarrow> Inl err
                              | Inr s12 \<Rightarrow>
                                  (case patch_jump jump_if_exhausted_idx
                                          (Some (int (length (bytecode_chunk s12)))) s12 of
                                     Inl err \<Rightarrow> Inl err
                                   | Inr s13 \<Rightarrow>
                                       (case top_patches (loop_start_patches s13) of
                                          Inl err \<Rightarrow> Inl err
                                        | Inr continues \<Rightarrow>
                                            (case set_operands continues
                                                    loop_iteration_start_ip s13 of
                                               Inl err \<Rightarrow> Inl err
                                             | Inr s14 \<Rightarrow>
                                                 (let s15 = emit OP_EXIT_SCOPE NoOperand s14
                                                  in Inr (s15\<lparr>scope_depth := scope_depth s15 - 1,
                                                            loop_start_patches :=
                                                              butlast (loop_start_patches s15),
                                                            loop_end_patches :=
                                                              butlast (loop_end_patches s15),
                                                            loop_level := loop_level s15 - 1\<rparr>)))))))))"
  \<comment> \<open>\<open>visit_ArrayLiteral\<close>\<close>
| "compile_node (ArrayLiteral elements) s =
     (case compile_nodes elements s of
        Inl err \<Rightarrow> Inl err
      | Inr s1 \<Rightarrow> Inr (emit OP_BUILD_LIST (IntOperand (int (length elements))) s1))"
  \<comment> \<open>\<open>visit_FunctionDefStmt\<close>\<close>
| "compile_node (FunctionDefStmt name params body) s =
     (let (jump_over_body_idx, s1) = emit_instruction OP_JUMP (IntOperand 99999) s;
          function_start_ip = int (length (bytecode_chunk s1));
          enclosing_scope_depth = scope_depth s1;
          s2 = emit OP_ENTER_SCOPE NoOperand (s1\<lparr>scope_depth := scope_depth s1 + 1\<rparr>);
          s3 = emit_params (rev params) s2
      in case compile_node body s3 of
           Inl err \<Rightarrow> Inl err
         | Inr s4 \<Rightarrow>
             (let s5 = emit OP_EXIT_SCOPE NoOperand s4;
                  s6 = emit_const OP_CONST VNone s5;
                  s7 = emit OP_RETURN NoOperand s6;
                  s8 = s7\<lparr>scope_depth := enclosing_scope_depth\<rparr>
              in case patch_jump jump_over_body_idx None s8 of
                   Inl err \<Rightarrow> Inl err
                 | Inr s9 \<Rightarrow>
                     (let func_obj = \<lparr>fn_name = tvalue name, arity = int (length params),
                                       start_ip = Some function_start_ip, native_fn = None\<rparr>;
                          s10 = emit_const OP_CONST (VFunc func_obj) s9
                      in if scope_depth s10 > 0
                         then Inr (emit_const OP_DEF_LOCAL (VStr (tvalue name)) s10)
                         else Inr (emit_const OP_DEF_GLOBAL (VStr (tvalue name)) s10))))"
  \<comment> \<open>\<open>visit_FunctionExpr\<close>\<close>
| "compile_node (FunctionExpr params body) s =
     (let (jump_over_body_idx, s1) = emit_instruction OP_JUMP (IntOperand 99999) s;
          function_start_ip = int (length (bytecode_chunk s1));
          enclosing_scope_depth = scope_depth s1;
          s2 = emit OP_ENTER_SCOPE NoOperand (s1\<lparr>scope_depth := scope_depth s1 + 1\<rparr>);
          s3 = emit_params (rev params) s2
      in case compile_node body s3 of
           Inl err \<Rightarrow> Inl err
         | Inr s4 \<Rightarrow>
             (let s5 = emit OP_EXIT_SCOPE NoOperand s4;
                  s6 = emit_const OP_CONST VNone s5;
                  s7 = emit OP_RETURN NoOperand s6;
                  s8 = s7\<lparr>scope_depth := enclosing_scope_depth\<rparr>
              in case patch_jump jump_over_body_idx None s8 of
                   Inl err \<Rightarrow> Inl err
                 | Inr s9 \<Rightarrow>
                     (let func_obj = \<lparr>fn_name = ''<lambda>'', arity = int (length params),
                                       start_ip = Some function_start_ip, native_fn = None\<rparr>
                      in Inr (emit_const OP_CONST (VFunc func_obj) s9))))"
  \<comment> \<open>\<open>visit_CallExpr\<close>\<close>
| "compile_node (CallExpr callee arguments keywords) s =
     (case compile_node callee s of
        Inl err \<Rightarrow> Inl err
      | Inr s1 \<Rightarrow>
          (case compile_nodes arguments s1 of
             Inl err \<Rightarrow> Inl err
           | Inr s2 \<Rightarrow>
               (case compile_keywords keywords s2 of
                  Inl err \<Rightarrow> Inl err
                | Inr s3 \<Rightarrow>
                    if keywords \<noteq> [] then
                      (let kw_names = VList (map (\<lambda>kw. VStr (tvalue (fst kw))) keywords);
                           s4 = emit_const OP_CONST kw_names s3;
                           s5 = emit OP_BUILD_KWARGS (IntOperand (int (length keywords))) s4
                       in Inr (emit OP_CALL_KW
                                 (PairOperand (int (length arguments)) (int (length keywords))) s5))
                    else Inr (emit OP_CALL (IntOperand (int (length arguments))) s3))))"
  \<comment> \<open>\<open>visit_ReturnStmt\<close>\<close>
| "compile_node (ReturnStmt v) s =
     (case (case v of
              Some e \<Rightarrow> compile_node e s
            | None \<Rightarrow> Inr (emit_const OP_CONST VNone s)) of
        Inl err \<Rightarrow> Inl err
      | Inr s1 \<Rightarrow> Inr (emit OP_RETURN NoOperand s1))"
  \<comment> \<open>\<open>visit_IndexExpr\<close>, \<open>visit_AssignIndexStmt\<close>, \<open>visit_DotExpr\<close>\<close>
| "compile_node (IndexExpr collection idx) s =
     (case compile_node collection s of
        Inl err \<Rightarrow> Inl err
      | Inr s1 \<Rightarrow>
          (case compile_node idx s1 of
             Inl err \<Rightarrow> Inl err
           | Inr s2 \<Rightarrow> Inr (emit OP_INDEX_GET NoOperand s2)))"
| "compile_node (AssignIndexStmt collection idx v) s =
     (case compile_node collection s of
        Inl err \<Rightarrow> Inl err
      | Inr s1 \<Rightarrow>
          (case compile_node idx s1 of
             Inl err \<Rightarrow> Inl err
           | Inr s2 \<Rightarrow>
               (case compile_node v s2 of
                  Inl err \<Rightarrow> Inl err
                | Inr s3 \<Rightarrow> Inr (emit OP_INDEX_SET NoOperand s3))))"
| "compile_node (DotExpr obj attr) s =
     (case compile_node obj s of
        Inl err \<Rightarrow> Inl err
      | Inr s1 \<Rightarrow> Inr (emit_const OP_GET_ATTR (VStr (tvalue attr)) s1))"
  \<comment> \<open>the loop of \<open>visit_Block\<close>: an expression used as a statement is followed by \<open>OP_POP\<close>\<close>
| "compile_statements [] s = Inr s"
| "compile_statements (statement_node # rest) s =
     (case compile_node statement_node s of
        Inl err \<Rightarrow> Inl err
      | Inr s1 \<Rightarrow>
          compile_statements rest
            (if is_Expr statement_node then emit OP_POP NoOperand s1 else s1))"
  \<comment> \<open>\<open>for e in es: self._compile_node(e)\<close>\<close>
| "compile_nodes [] s = Inr s"
| "compile_nodes (e # es) s =
     (case compile_node e s of Inl err \<Rightarrow> Inl err | Inr s1 \<Rightarrow> compile_nodes es s1)"
  \<comment> \<open>\<open>for kw in node.keywords: self._compile_node(kw.value)\<close>\<close>
| "compile_keywords [] s = Inr s"
| "compile_keywords (kw # kws) s =
     (case compile_node (snd kw) s of Inl err \<Rightarrow> Inl err | Inr s1 \<Rightarrow> compile_keywords kws s1)"

text \<open>
  \<open>Compiler.compile\<close>: reset the compiler, emit the initialisers of the registry, open
  the main scope, compile the root, close the scope and return \<open>None\<close>.
\<close>

definition new_compiler :: Compiler where
  "new_compiler = \<lparr>bytecode_chunk = [], constants = [], scope_depth = 0, loop_level = 0,
                    loop_start_patches = [], loop_end_patches = []\<rparr>"

definition compile_prelude :: Compiler where
  "compile_prelude =
     (let s1 = initialize_builtins BUILTINS new_compiler;
          s2 = emit OP_ENTER_SCOPE NoOperand s1
      in s2\<lparr>scope_depth := 1\<rparr>)"

definition compile_epilogue :: "Compiler \<Rightarrow> Compiler" where
  "compile_epilogue s =
     (let s1 = emit OP_EXIT_SCOPE NoOperand s;
          s2 = s1\<lparr>scope_depth := 0\<rparr>;
          s3 = emit_const OP_CONST VNone s2
      in emit OP_RETURN NoOperand s3)"

definition compile :: "node \<Rightarrow> compile_error + Instruction list \<times> pyval list" where
  "compile ast =
     (case compile_node ast compile_prelude of
        Inl err \<Rightarrow> Inl err
      | Inr s \<Rightarrow>
          (let s1 = compile_epilogue s in Inr (bytecode_chunk s1, constants s1)))"

section \<open>Virtual machine: state and results (pyle\_vm.py, pyle\_errors.py)\<close>

record Variable =
  var_name :: string
  var_value :: pyval
  is_const :: bool

text \<open>
  A call frame.  \<open>OP_CALL\<close> is the only place that creates one, with
  \<open>stack_slot\<close> an index into the operand stack and \<open>env_depth\<close> the number of
  environments, so both are naturals; \<open>return_ip\<close> is the instruction pointer, an
  integer.
\<close>

record CallFrame =
  return_ip :: int
  stack_slot :: nat
  env_depth :: nat

text \<open>
  Host iterators, as \<open>iter()\<close> creates them: over a list object of the store, over a
  list of the constant pool, over a \<open>range\<close>, over a string; a list iterator that has
  raised \<open>StopIteration\<close> once stays exhausted.
\<close>

datatype iter_state =
    ListIter nat nat
  | ConstListIter "pyval list" nat
  | RangeIter int int int
  | StrIter string nat
  | IterDone

text \<open>
  The fields of the VM object that \<open>_run\<close> changes, the store of list objects and the
  store of iterator objects.  The operand stack, the environment stack and the frame stack
  are Python lists: the top is the last element.  \<open>bytecode_chunk\<close> and
  \<open>constants\<close> are set by \<open>interpret\<close> and only read afterwards; they are
  parameters of the functions below.
\<close>

record VM =
  ip :: int
  stack :: "pyval list"
  globals :: "string \<rightharpoonup> Variable"
  environments :: "(string \<rightharpoonup> Variable) list"
  frames :: "CallFrame list"
  list_objs :: "pyval list list"
  iter_objs :: "iter_state list"

text \<open>The kinds of \<open>PyleRuntimeError\<close> that \<open>_run\<close> returns in \<open>Result.err\<close>.\<close>

datatype runtime_error =
    StackUnderflow OpCode
  | UndefinedGlobal string
  | AssignUndefinedGlobal string
  | AssignConstGlobal string
  | UnsupportedOperandTypes
  | DivisionByZero
  | ModuloByZero
  | NegateOperandNotNumber
  | NotIterable
  | NotIterator
  | IndexingError
  | IndexAssignmentError
  | IndexAssignmentUnsupported
  | ExitScopeNoScope
  | NoActiveLocalScope
  | UndefinedLocal string
  | AssignConstLocal string
  | AssignUndefinedLocal string
  | NotCallable
  | NativeArityMismatch
  | NativeFunctionError
  | NoStartIp
  | ArityMismatch
  | KwCallError

datatype result = Ok pyval | Err runtime_error

text \<open>Host exceptions that no \<open>except\<close> clause of \<open>_run\<close> catches.\<close>

datatype host_exception = TypeError | IndexError | ValueError | OverflowError

text \<open>
  What executing one instruction leads to: the loop goes on, \<open>_run\<close> returns a
  \<open>Result\<close> (the VM object keeps its state), a host exception leaves \<open>_run\<close>, or
  the instruction calls into the host in a way this embedding does not describe
  (attribute lookup, keyword calls, slicing, string formatting, comparison of list
  objects, the natives that do input, time or imports, names that are not strings).
\<close>

datatype outcome =
    Continue VM
  | Finished result VM
  | Raised host_exception
  | Unmodelled

section \<open>Virtual machine: host operations on values\<close>

text \<open>\<open>xs[i]\<close> with an integer \<open>i\<close>: negative indices count from the end.\<close>

definition py_index :: "'a list \<Rightarrow> int \<Rightarrow> 'a option" where
  "py_index xs i =
     (let n = int (length xs); j = (if i < 0 then n + i else i)
      in if 0 \<le> j \<and> j < n then Some (xs ! nat j) else None)"

text \<open>\<open>self.constants[operand]\<close>.\<close>

definition const_at :: "pyval list \<Rightarrow> Operand \<Rightarrow> host_exception + pyval" where
  "const_at consts opd =
     (case opd of
        IntOperand i \<Rightarrow> (case py_index consts i of Some v \<Rightarrow> Inr v | None \<Rightarrow> Inl IndexError)
      | NoOperand \<Rightarrow> Inl TypeError
      | PairOperand a b \<Rightarrow> Inl TypeError)"

text \<open>The numeric types: \<open>isinstance(v, (int, float))\<close> holds for \<open>bool\<close> too.\<close>

datatype num = NI int | NF real

fun as_num :: "pyval \<Rightarrow> num option" where
  "as_num (VInt i) = Some (NI i)"
| "as_num (VBool b) = Some (NI (if b then 1 else 0))"
| "as_num (VFloat r) = Some (NF r)"
| "as_num v = None"

fun num_real :: "num \<Rightarrow> real" where
  "num_real (NI i) = of_int i"
| "num_real (NF r) = r"

fun num_val :: "num \<Rightarrow> pyval" where
  "num_val (NI i) = VInt i"
| "num_val (NF r) = VFloat r"

text \<open>Objects usable as an index (\<open>__index__\<close>): \<open>int\<close> and \<open>bool\<close>.\<close>

fun as_index :: "pyval \<Rightarrow> int option" where
  "as_index (VInt i) = Some i"
| "as_index (VBool b) = Some (if b then 1 else 0)"
| "as_index v = None"

text \<open>
  \<open>float(i)\<close>, the conversion the host applies to the integer operand when the other
  operand is a float: it raises \<open>OverflowError\<close> (here \<open>None\<close>) when \<open>i\<close> rounds to a
  magnitude beyond the largest double, that is from \<open>2 ^ 1024 - 2 ^ 970\<close> on.
\<close>

definition float_overflows :: "int \<Rightarrow> bool" where
  "float_overflows i \<longleftrightarrow> 2 ^ 1024 - 2 ^ 970 \<le> \<bar>i\<bar>"

fun num_float :: "num \<Rightarrow> real option" where
  "num_float (NI i) = (if float_overflows i then None else Some (of_int i))"
| "num_float (NF r) = Some r"

text \<open>An operator on the two operands as floats.\<close>

definition float_op :: "(real \<Rightarrow> real \<Rightarrow> real) \<Rightarrow> num \<Rightarrow> num \<Rightarrow> num option" where
  "float_op f a b =
     (case (num_float a, num_float b) of
        (Some x, Some y) \<Rightarrow> Some (NF (f x y))
      | _ \<Rightarrow> None)"

text \<open>
  The arithmetic operators on two numbers; \<open>None\<close> is \<open>OverflowError\<close>.  Two integers
  are added, subtracted and multiplied exactly; otherwise both operands are floats.
\<close>

fun num_add :: "num \<Rightarrow> num \<Rightarrow> num option" where
  "num_add (NI a) (NI b) = Some (NI (a + b))"
| "num_add a b = float_op (\<lambda>x y. x + y) a b"

fun num_sub :: "num \<Rightarrow> num \<Rightarrow> num option" where
  "num_sub (NI a) (NI b) = Some (NI (a - b))"
| "num_sub a b = float_op (\<lambda>x y. x - y) a b"

fun num_mul :: "num \<Rightarrow> num \<Rightarrow> num option" where
  "num_mul (NI a) (NI b) = Some (NI (a * b))"
| "num_mul a b = float_op (\<lambda>x y. x * y) a b"

text \<open>
  \<open>/\<close> with a non-zero divisor is true division.  The quotient of two integers is
  rounded from the exact quotient and raises \<open>OverflowError\<close> when it is too large for a
  float.
\<close>

fun num_div :: "num \<Rightarrow> num \<Rightarrow> num option" where
  "num_div (NI a) (NI b) =
     (if (2 ^ 1024 - 2 ^ 970) * \<bar>b\<bar> \<le> \<bar>a\<bar> then None
      else Some (NF (of_int a / of_int b)))"
| "num_div a b = float_op (\<lambda>x y. x / y) a b"

text \<open>\<open>%\<close> on numbers with a non-zero divisor: the result has the sign of the divisor.\<close>

fun num_mod :: "num \<Rightarrow> num \<Rightarrow> num option" where
  "num_mod (NI a) (NI b) = Some (NI (a mod b))"
| "num_mod a b = float_op (\<lambda>x y. x - y * of_int \<lfloor>x / y\<rfloor>) a b"

fun num_neg :: "num \<Rightarrow> num" where
  "num_neg (NI a) = NI (- a)"
| "num_neg (NF r) = NF (- r)"

text \<open>The list object behind a value, if it is one.\<close>

definition list_of :: "VM \<Rightarrow> pyval \<Rightarrow> pyval list option" where
  "list_of vm v =
     (case v of
        VList xs \<Rightarrow> Some xs
      | VRef r \<Rightarrow> (if r < length (list_objs vm) then Some (list_objs vm ! r) else None)
      | _ \<Rightarrow> None)"

text \<open>\<open>bool(v)\<close>.\<close>

definition truthy :: "VM \<Rightarrow> pyval \<Rightarrow> bool" where
  "truthy vm v =
     (case v of
        VInt i \<Rightarrow> i \<noteq> 0
      | VFloat r \<Rightarrow> r \<noteq> 0
      | VBool b \<Rightarrow> b
      | VStr s \<Rightarrow> s \<noteq> []
      | VNone \<Rightarrow> False
      | VList xs \<Rightarrow> xs \<noteq> []
      | VRef r \<Rightarrow> list_of vm (VRef r) \<noteq> Some []
      | _ \<Rightarrow> True)"

text \<open>No list object of the store occurs in the value.\<close>

fun ref_free :: "pyval \<Rightarrow> bool" where
  "ref_free (VRef r) = False"
| "ref_free (VList xs) = list_all ref_free xs"
| "ref_free (VRange a b c) = (ref_free a \<and> ref_free b \<and> ref_free c)"
| "ref_free v = True"

text \<open>Strings are ordered lexicographically by code point.\<close>

fun str_less :: "string \<Rightarrow> string \<Rightarrow> bool" where
  "str_less [] [] = False"
| "str_less [] (y # ys) = True"
| "str_less (x # xs) [] = False"
| "str_less (x # xs) (y # ys) =
     ((of_char x :: nat) < of_char y \<or> (x = y \<and> str_less xs ys))"

text \<open>
  \<open>left < right\<close>; the other three comparisons are derived as Python does for numbers and
  strings.  \<open>None\<close> stands for a \<open>TypeError\<close>.
\<close>

definition py_less :: "pyval \<Rightarrow> pyval \<Rightarrow> bool option" where
  "py_less a b =
     (case (as_num a, as_num b) of
        (Some x, Some y) \<Rightarrow> Some (num_real x < num_real y)
      | _ \<Rightarrow> (case (a, b) of (VStr s, VStr t) \<Rightarrow> Some (str_less s t) | _ \<Rightarrow> None))"

definition push :: "pyval \<Rightarrow> VM \<Rightarrow> VM" where
  "push v vm = vm\<lparr>stack := stack vm @ [v]\<rparr>"

text \<open>A new list object: its reference is pushed.\<close>

definition push_new_list :: "pyval list \<Rightarrow> VM \<Rightarrow> VM" where
  "push_new_list xs vm =
     push (VRef (length (list_objs vm))) (vm\<lparr>list_objs := list_objs vm @ [xs]\<rparr>)"

definition push_new_iter :: "iter_state \<Rightarrow> VM \<Rightarrow> VM" where
  "push_new_iter it vm =
     push (VIter (length (iter_objs vm))) (vm\<lparr>iter_objs := iter_objs vm @ [it]\<rparr>)"

text \<open>\<open>self.ip = operand\<close>; an operand that is not an integer fails at the next fetch.\<close>

definition jump_to :: "Operand \<Rightarrow> VM \<Rightarrow> outcome" where
  "jump_to opd vm =
     (case opd of IntOperand j \<Rightarrow> Continue (vm\<lparr>ip := j\<rparr>) | _ \<Rightarrow> Raised TypeError)"

text \<open>
  The frame of the two-operand instructions: the underflow check, then
  \<open>right = self._pop(); left = self._pop()\<close>.
\<close>

definition binop :: "OpCode \<Rightarrow> (VM \<Rightarrow> pyval \<Rightarrow> pyval \<Rightarrow> outcome) \<Rightarrow> VM \<Rightarrow> outcome" where
  "binop opc f vm =
     (if length (stack vm) < 2 then Finished (Err (StackUnderflow opc)) vm
      else f (vm\<lparr>stack := butlast (butlast (stack vm))\<rparr>)
             (last (butlast (stack vm))) (last (stack vm)))"

text \<open>The name operand of the variable instructions; the compiler emits string names only.\<close>

definition with_name :: "pyval list \<Rightarrow> Operand \<Rightarrow> (string \<Rightarrow> outcome) \<Rightarrow> outcome" where
  "with_name consts opd f =
     (case const_at consts opd of
        Inl ex \<Rightarrow> Raised ex
      | Inr (VStr n) \<Rightarrow> f n
      | Inr _ \<Rightarrow> Unmodelled)"

section \<open>Virtual machine: the instructions (PyleVM.\_run)\<close>

text \<open>
  One definition per branch of the \<open>if\<close>/\<open>elif\<close> chain of \<open>_run\<close>, in the order
  of the source.  Each takes the VM after \<open>self.ip += 1\<close>.
\<close>

definition exec_const :: "pyval list \<Rightarrow> Operand \<Rightarrow> VM \<Rightarrow> outcome" where
  "exec_const consts opd vm =
     (case const_at consts opd of Inl ex \<Rightarrow> Raised ex | Inr v \<Rightarrow> Continue (push v vm))"

definition exec_def_global :: "bool \<Rightarrow> pyval list \<Rightarrow> Operand \<Rightarrow> VM \<Rightarrow> outcome" where
  "exec_def_global c consts opd vm =
     with_name consts opd (\<lambda>n.
       if stack vm = [] then Finished (Err (StackUnderflow OP_DEF_GLOBAL)) vm
       else Continue (vm\<lparr>globals := (globals vm)(n \<mapsto>
                           \<lparr>var_name = n, var_value = last (stack vm), is_const = c\<rparr>),
                         stack := butlast (stack vm)\<rparr>))"

definition exec_get_global :: "pyval list \<Rightarrow> Operand \<Rightarrow> VM \<Rightarrow> outcome" where
  "exec_get_global consts opd vm =
     with_name consts opd (\<lambda>n.
       case globals vm n of
         None \<Rightarrow> Finished (Err (UndefinedGlobal n)) vm
       | Some var \<Rightarrow> Continue (push (var_value var) vm))"

definition exec_set_global :: "pyval list \<Rightarrow> Operand \<Rightarrow> VM \<Rightarrow> outcome" where
  "exec_set_global consts opd vm =
     with_name consts opd (\<lambda>n.
       case globals vm n of
         None \<Rightarrow> Finished (Err (AssignUndefinedGlobal n)) vm
       | Some var \<Rightarrow>
           if stack vm = [] then Finished (Err (StackUnderflow OP_SET_GLOBAL)) vm
           else if is_const var then Finished (Err (AssignConstGlobal n)) vm
           else Continue (vm\<lparr>globals := (globals vm)(n \<mapsto>
                               \<lparr>var_name = n, var_value = last (stack vm), is_const = False\<rparr>),
                             stack := butlast (stack vm)\<rparr>))"

text \<open>The result of an arithmetic operator on numbers is pushed, or its exception raised.\<close>

definition push_num :: "num option \<Rightarrow> VM \<Rightarrow> outcome" where
  "push_num r vm =
     (case r of Some x \<Rightarrow> Continue (push (num_val x) vm) | None \<Rightarrow> Raised OverflowError)"

text \<open>
  \<open>OP_ADD\<close> checks the types of its operands: two numbers, two strings or two lists
  (the sum of two lists is a new list object).
\<close>

definition exec_add :: "VM \<Rightarrow> outcome" where
  "exec_add = binop OP_ADD (\<lambda>vm left right.
     case (as_num left, as_num right) of
       (Some x, Some y) \<Rightarrow> push_num (num_add x y) vm
     | _ \<Rightarrow>
        (case (left, right) of
           (VStr s, VStr t) \<Rightarrow> Continue (push (VStr (s @ t)) vm)
         | _ \<Rightarrow>
            if is_list left \<and> is_list right then
              (case (list_of vm left, list_of vm right) of
                 (Some xs, Some ys) \<Rightarrow> Continue (push_new_list (xs @ ys) vm)
               | _ \<Rightarrow> Unmodelled)
            else Finished (Err UnsupportedOperandTypes) vm))"

text \<open>
  \<open>OP_SUBTRACT\<close>, \<open>OP_MULTIPLY\<close>, \<open>OP_DIVIDE\<close> and \<open>OP_MODULO\<close> apply the host
  operator to whatever the operands are, outside any \<open>try\<close>: on operands the host
  operator rejects, the \<open>TypeError\<close> leaves \<open>_run\<close>.
\<close>

definition exec_subtract :: "VM \<Rightarrow> outcome" where
  "exec_subtract = binop OP_SUBTRACT (\<lambda>vm left right.
     case (as_num left, as_num right) of
       (Some x, Some y) \<Rightarrow> push_num (num_sub x y) vm
     | _ \<Rightarrow> Raised TypeError)"

text \<open>
  The host's \<open>*\<close> also repeats a string or a list an integer number of times; a
  count that does not fit the host's index type (64 bits) raises \<open>OverflowError\<close>
  (here \<open>None\<close>).
\<close>

definition repeat_seq :: "int \<Rightarrow> 'a list \<Rightarrow> 'a list option" where
  "repeat_seq n xs =
     (if n < - (2 ^ 63) \<or> 2 ^ 63 \<le> n then None
      else Some (concat (replicate (nat n) xs)))"

definition push_str :: "string option \<Rightarrow> VM \<Rightarrow> outcome" where
  "push_str r vm =
     (case r of Some s \<Rightarrow> Continue (push (VStr s) vm) | None \<Rightarrow> Raised OverflowError)"

definition push_list :: "pyval list option \<Rightarrow> VM \<Rightarrow> outcome" where
  "push_list r vm =
     (case r of Some xs \<Rightarrow> Continue (push_new_list xs vm) | None \<Rightarrow> Raised OverflowError)"

definition exec_multiply :: "VM \<Rightarrow> outcome" where
  "exec_multiply = binop OP_MULTIPLY (\<lambda>vm left right.
     case (as_num left, as_num right) of
       (Some x, Some y) \<Rightarrow> push_num (num_mul x y) vm
     | _ \<Rightarrow>
        (case (left, as_index right, as_index left, right) of
           (VStr s, Some n, _, _) \<Rightarrow> push_str (repeat_seq n s) vm
         | (_, _, Some n, VStr s) \<Rightarrow> push_str (repeat_seq n s) vm
         | _ \<Rightarrow>
            if is_list left \<and> as_index right \<noteq> None then
              (case list_of vm left of
                 Some xs \<Rightarrow> push_list (repeat_seq (the (as_index right)) xs) vm
               | None \<Rightarrow> Unmodelled)
            else if is_list right \<and> as_index left \<noteq> None then
              (case list_of vm right of
                 Some xs \<Rightarrow> push_list (repeat_seq (the (as_index left)) xs) vm
               | None \<Rightarrow> Unmodelled)
            else Raised TypeError))"

text \<open>\<open>/\<close> is true division: the quotient of two numbers is a float.\<close>

definition exec_divide :: "VM \<Rightarrow> outcome" where
  "exec_divide = binop OP_DIVIDE (\<lambda>vm left right.
     if py_eq right (VInt 0) then Finished (Err DivisionByZero) vm
     else
       (case (as_num left, as_num right) of
          (Some x, Some y) \<Rightarrow> push_num (num_div x y) vm
        | _ \<Rightarrow> Raised TypeError))"

text \<open>\<open>%\<close> with a string on the left is the host's string formatting.\<close>

definition exec_modulo :: "VM \<Rightarrow> outcome" where
  "exec_modulo = binop OP_MODULO (\<lambda>vm left right.
     if py_eq right (VInt 0) then Finished (Err ModuloByZero) vm
     else
       (case (as_num left, as_num right) of
          (Some x, Some y) \<Rightarrow> push_num (num_mod x y) vm
        | _ \<Rightarrow> (case left of VStr s \<Rightarrow> Unmodelled | _ \<Rightarrow> Raised TypeError)))"

definition exec_negate :: "VM \<Rightarrow> outcome" where
  "exec_negate vm =
     (if stack vm = [] then Finished (Err (StackUnderflow OP_NEGATE)) vm
      else
        (let vm1 = vm\<lparr>stack := butlast (stack vm)\<rparr>
         in case as_num (last (stack vm)) of
              Some x \<Rightarrow> Continue (push (num_val (num_neg x)) vm1)
            | None \<Rightarrow> Finished (Err NegateOperandNotNumber) vm1))"

definition exec_not :: "VM \<Rightarrow> outcome" where
  "exec_not vm =
     (if stack vm = [] then Finished (Err (StackUnderflow OP_NOT)) vm
      else Continue (push (VBool (\<not> truthy vm (last (stack vm))))
                      (vm\<lparr>stack := butlast (stack vm)\<rparr>)))"

text \<open>\<open>==\<close> and \<open>!=\<close>; \<open>neg\<close> selects \<open>!=\<close>.\<close>

definition exec_equal :: "OpCode \<Rightarrow> bool \<Rightarrow> VM \<Rightarrow> outcome" where
  "exec_equal opc neg = binop opc (\<lambda>vm left right.
     if ref_free left \<and> ref_free right
     then Continue (push (VBool (py_eq left right \<noteq> neg)) vm)
     else Unmodelled)"

text \<open>
  The four order comparisons, each the host operator outside any \<open>try\<close>;
  \<open>swap\<close> exchanges the operands and \<open>neg\<close> negates the result, so that
  \<open>>\<close> is \<open>right < left\<close>, \<open>>=\<close> is \<open>not (left < right)\<close> and so on.
\<close>

definition exec_compare :: "OpCode \<Rightarrow> bool \<Rightarrow> bool \<Rightarrow> VM \<Rightarrow> outcome" where
  "exec_compare opc swap neg = binop opc (\<lambda>vm left right.
     if is_list left \<and> is_list right then Unmodelled
     else
       (case (if swap then py_less right left else py_less left right) of
          Some b \<Rightarrow> Continue (push (VBool (b \<noteq> neg)) vm)
        | None \<Rightarrow> Raised TypeError))"

definition exec_and :: "VM \<Rightarrow> outcome" where
  "exec_and = binop OP_AND (\<lambda>vm left right.
     Continue (push (if truthy vm left then right else left) vm))"

definition exec_or :: "VM \<Rightarrow> outcome" where
  "exec_or = binop OP_OR (\<lambda>vm left right.
     Continue (push (if truthy vm left then left else right) vm))"

definition exec_build_range :: "VM \<Rightarrow> outcome" where
  "exec_build_range vm =
     (if length (stack vm) < 3 then Finished (Err (StackUnderflow OP_BUILD_RANGE)) vm
      else
        (let st = stack vm;
             step = last st; end_v = last (butlast st); start = last (butlast (butlast st))
         in Continue (push (VRange start end_v step)
                        (vm\<lparr>stack := butlast (butlast (butlast st))\<rparr>))))"

text \<open>
  \<open>OP_ITER_NEW\<close>: \<open>iter(iterable)\<close>, with \<open>TypeError\<close> caught.  Lists and strings
  are iterable in the host; \<open>Range.__iter__\<close> calls \<open>range(start, end, step)\<close>, which
  raises \<open>TypeError\<close> on a bound that is not an integer and \<open>ValueError\<close>, which is
  not caught, on a zero step; an iterator is its own iterator.
\<close>

definition exec_iter_new :: "VM \<Rightarrow> outcome" where
  "exec_iter_new vm =
     (if stack vm = [] then Finished (Err (StackUnderflow OP_ITER_NEW)) vm
      else
        (let vm1 = vm\<lparr>stack := butlast (stack vm)\<rparr>
         in case last (stack vm) of
              VList xs \<Rightarrow> Continue (push_new_iter (ConstListIter xs 0) vm1)
            | VRef r \<Rightarrow>
                (if r < length (list_objs vm) then Continue (push_new_iter (ListIter r 0) vm1)
                 else Unmodelled)
            | VStr s \<Rightarrow> Continue (push_new_iter (StrIter s 0) vm1)
            | VRange a b c \<Rightarrow>
                (case (as_index a, as_index b, as_index c) of
                   (Some start, Some stop, Some step) \<Rightarrow>
                     if step = 0 then Raised ValueError
                     else Continue (push_new_iter (RangeIter start stop step) vm1)
                 | _ \<Rightarrow> Finished (Err NotIterable) vm1)
            | VIter i \<Rightarrow> Continue (push (VIter i) vm1)
            | _ \<Rightarrow> Finished (Err NotIterable) vm1))"

text \<open>\<open>next(it)\<close> on an iterator object: the value and the new state, or exhaustion.\<close>

definition iter_next :: "VM \<Rightarrow> iter_state \<Rightarrow> (pyval \<times> iter_state) option" where
  "iter_next vm it =
     (case it of
        ListIter r k \<Rightarrow>
          (case list_of vm (VRef r) of
             Some xs \<Rightarrow> if k < length xs then Some (xs ! k, ListIter r (k + 1)) else None
           | None \<Rightarrow> None)
      | ConstListIter xs k \<Rightarrow>
          if k < length xs then Some (xs ! k, ConstListIter xs (k + 1)) else None
      | RangeIter cur stop step \<Rightarrow>
          if (0 < step \<and> cur < stop) \<or> (step < 0 \<and> stop < cur)
          then Some (VInt cur, RangeIter (cur + step) stop step) else None
      | StrIter s k \<Rightarrow>
          if k < length s then Some (VStr [s ! k], StrIter s (k + 1)) else None
      | IterDone \<Rightarrow> None)"

definition exec_iter_next_or_jump :: "Operand \<Rightarrow> VM \<Rightarrow> outcome" where
  "exec_iter_next_or_jump opd vm =
     (if stack vm = [] then Finished (Err (StackUnderflow OP_ITER_NEXT_OR_JUMP)) vm
      else
        (case last (stack vm) of
           VIter i \<Rightarrow>
             (if i < length (iter_objs vm) then
                (case iter_next vm (iter_objs vm ! i) of
                   Some (v, it) \<Rightarrow> Continue (push v (vm\<lparr>iter_objs := (iter_objs vm)[i := it]\<rparr>))
                 | None \<Rightarrow>
                     jump_to opd (vm\<lparr>iter_objs := (iter_objs vm)[i := IterDone],
                                     stack := butlast (stack vm)\<rparr>))
              else Unmodelled)
         | _ \<Rightarrow> Finished (Err NotIterator) vm))"

definition exec_build_list :: "Operand \<Rightarrow> VM \<Rightarrow> outcome" where
  "exec_build_list opd vm =
     (case opd of
        IntOperand n \<Rightarrow>
          if int (length (stack vm)) < n then Finished (Err (StackUnderflow OP_BUILD_LIST)) vm
          else
            (let k = length (stack vm) - nat n
             in Continue (push_new_list (drop k (stack vm)) (vm\<lparr>stack := take k (stack vm)\<rparr>)))
      | _ \<Rightarrow> Raised TypeError)"

text \<open>
  \<open>OP_INDEX_GET\<close>: indexing with a \<open>Range\<close> is a host slice (not described here when
  the collection can be sliced); otherwise \<open>collection[index]\<close> with \<open>TypeError\<close>,
  \<open>IndexError\<close> and \<open>KeyError\<close> caught.
\<close>

definition exec_index_get :: "VM \<Rightarrow> outcome" where
  "exec_index_get = binop OP_INDEX_GET (\<lambda>vm collection index.
     case index of
       VRange a b c \<Rightarrow>
         (case collection of
            VStr s \<Rightarrow> Unmodelled
          | VList xs \<Rightarrow> Unmodelled
          | VRef r \<Rightarrow> Unmodelled
          | _ \<Rightarrow> Finished (Err IndexingError) vm)
     | _ \<Rightarrow>
        (case collection of
           VStr s \<Rightarrow>
             (case as_index index of
                Some i \<Rightarrow>
                  (case py_index s i of
                     Some ch \<Rightarrow> Continue (push (VStr [ch]) vm)
                   | None \<Rightarrow> Finished (Err IndexingError) vm)
              | None \<Rightarrow> Finished (Err IndexingError) vm)
         | _ \<Rightarrow>
            if is_list collection then
              (case list_of vm collection of
                 Some xs \<Rightarrow>
                   (case as_index index of
                      Some i \<Rightarrow>
                        (case py_index xs i of
                           Some v \<Rightarrow> Continue (push v vm)
                         | None \<Rightarrow> Finished (Err IndexingError) vm)
                    | None \<Rightarrow> Finished (Err IndexingError) vm)
               | None \<Rightarrow> Unmodelled)
            else Finished (Err IndexingError) vm))"

text \<open>
  \<open>OP_INDEX_SET\<close>: pops value, index and collection; on a list it stores the value in
  the list object and pushes the value back.  (Storing into a list of the constant pool
  would change the pool; the compiler never emits that.)
\<close>

definition exec_index_set :: "VM \<Rightarrow> outcome" where
  "exec_index_set vm =
     (if length (stack vm) < 3 then Finished (Err (StackUnderflow OP_INDEX_SET)) vm
      else
        (let st = stack vm;
             v = last st; index = last (butlast st); collection = last (butlast (butlast st));
             vm1 = vm\<lparr>stack := butlast (butlast (butlast st))\<rparr>
         in case collection of
              VRef r \<Rightarrow>
                (case list_of vm (VRef r) of
                   Some xs \<Rightarrow>
                     (case as_index index of
                        Some i \<Rightarrow>
                          (let n = int (length xs); j = (if i < 0 then n + i else i)
                           in if 0 \<le> j \<and> j < n
                              then Continue (push v
                                     (vm1\<lparr>list_objs := (list_objs vm1)[r := xs[nat j := v]]\<rparr>))
                              else Finished (Err IndexAssignmentError) vm1)
                      | None \<Rightarrow> Finished (Err IndexAssignmentError) vm1)
                 | None \<Rightarrow> Unmodelled)
            | VList xs \<Rightarrow> Unmodelled
            | _ \<Rightarrow> Finished (Err IndexAssignmentUnsupported) vm1))"

definition exec_get_attr :: "VM \<Rightarrow> outcome" where
  "exec_get_attr vm =
     (if stack vm = [] then Finished (Err (StackUnderflow OP_GET_ATTR)) vm else Unmodelled)"

definition exec_enter_scope :: "VM \<Rightarrow> outcome" where
  "exec_enter_scope vm = Continue (vm\<lparr>environments := environments vm @ [Map.empty]\<rparr>)"

definition exec_exit_scope :: "VM \<Rightarrow> outcome" where
  "exec_exit_scope vm =
     (if environments vm = [] then Finished (Err ExitScopeNoScope) vm
      else Continue (vm\<lparr>environments := butlast (environments vm)\<rparr>))"

definition exec_def_local :: "bool \<Rightarrow> pyval list \<Rightarrow> Operand \<Rightarrow> VM \<Rightarrow> outcome" where
  "exec_def_local c consts opd vm =
     with_name consts opd (\<lambda>n.
       if environments vm = [] then Finished (Err NoActiveLocalScope) vm
       else if stack vm = [] then Finished (Err (StackUnderflow OP_DEF_LOCAL)) vm
       else Continue
              (vm\<lparr>environments := butlast (environments vm) @
                     [(last (environments vm))(n \<mapsto>
                        \<lparr>var_name = n, var_value = last (stack vm), is_const = c\<rparr>)],
                  stack := butlast (stack vm)\<rparr>))"

text \<open>
  \<open>for i in range(len(envs) - 1, -1, -1)\<close>: the index of the innermost environment
  that has the name.
\<close>

fun find_scope :: "string \<Rightarrow> (string \<rightharpoonup> Variable) list \<Rightarrow> nat option" where
  "find_scope n [] = None"
| "find_scope n (e # es) =
     (case find_scope n es of
        Some i \<Rightarrow> Some (Suc i)
      | None \<Rightarrow> if e n \<noteq> None then Some 0 else None)"

definition exec_get_local :: "pyval list \<Rightarrow> Operand \<Rightarrow> VM \<Rightarrow> outcome" where
  "exec_get_local consts opd vm =
     with_name consts opd (\<lambda>n.
       case find_scope n (environments vm) of
         Some i \<Rightarrow> Continue (push (var_value (the ((environments vm ! i) n))) vm)
       | None \<Rightarrow> Finished (Err (UndefinedLocal n)) vm)"

definition exec_set_local :: "pyval list \<Rightarrow> Operand \<Rightarrow> VM \<Rightarrow> outcome" where
  "exec_set_local consts opd vm =
     with_name consts opd (\<lambda>n.
       if stack vm = [] then Finished (Err (StackUnderflow OP_SET_LOCAL)) vm
       else
         (let vm1 = vm\<lparr>stack := butlast (stack vm)\<rparr>
          in case find_scope n (environments vm) of
               Some i \<Rightarrow>
                 if is_const (the ((environments vm ! i) n))
                 then Finished (Err (AssignConstLocal n)) vm1
                 else Continue
                        (vm1\<lparr>environments := (environments vm)[i := (environments vm ! i)(n \<mapsto>
                               \<lparr>var_name = n, var_value = last (stack vm), is_const = False\<rparr>)]\<rparr>)
             | None \<Rightarrow> Finished (Err (AssignUndefinedLocal n)) vm1))"

definition exec_jump_if_false :: "Operand \<Rightarrow> VM \<Rightarrow> outcome" where
  "exec_jump_if_false opd vm =
     (if stack vm = [] then Finished (Err (StackUnderflow OP_JUMP_IF_FALSE)) vm
      else
        (let vm1 = vm\<lparr>stack := butlast (stack vm)\<rparr>
         in if \<not> truthy vm (last (stack vm)) then jump_to opd vm1 else Continue vm1))"

definition exec_pop :: "VM \<Rightarrow> outcome" where
  "exec_pop vm =
     (if stack vm = [] then Finished (Err (StackUnderflow OP_POP)) vm
      else Continue (vm\<lparr>stack := butlast (stack vm)\<rparr>))"

text \<open>
  The natives.  \<open>echo\<close> prints and returns \<open>None\<close> (the output is not part of the
  state); \<open>len\<close> is the host's \<open>len\<close>, whose \<open>TypeError\<close> is caught by the call
  site; the others read input, the clock or the host's modules and attributes.
\<close>

definition call_native :: "native \<Rightarrow> VM \<Rightarrow> pyval list \<Rightarrow> VM \<Rightarrow> outcome" where
  "call_native f vm0 args vm =
     (case f of
        native_echo \<Rightarrow> Continue (push VNone vm)
      | native_len \<Rightarrow>
          (case args of
             [VStr s] \<Rightarrow> Continue (push (VInt (int (length s))) vm)
           | [a] \<Rightarrow>
               if is_list a then
                 (case list_of vm0 a of
                    Some xs \<Rightarrow> Continue (push (VInt (int (length xs))) vm)
                  | None \<Rightarrow> Unmodelled)
               else Finished (Err NativeFunctionError) vm
           | _ \<Rightarrow> Finished (Err NativeFunctionError) vm)
      | _ \<Rightarrow> Unmodelled)"

text \<open>
  \<open>OP_CALL\<close>.  No value of this embedding is a host callable, so a callee that is not
  a \<open>PyleFunction\<close> is not callable.  A native pops the arguments and the callee and
  pushes its result; a user function pushes a call frame and jumps.
\<close>

definition exec_call :: "Operand \<Rightarrow> VM \<Rightarrow> outcome" where
  "exec_call opd vm =
     (case opd of
        IntOperand num_args \<Rightarrow>
          if int (length (stack vm)) < num_args + 1 then Finished (Err (StackUnderflow OP_CALL)) vm
          else
            (case py_index (stack vm) (int (length (stack vm)) - 1 - num_args) of
               None \<Rightarrow> Raised IndexError
             | Some (VFunc f) \<Rightarrow>
                 (case native_fn f of
                    Some nf \<Rightarrow>
                      if 0 \<le> arity f \<and> num_args \<noteq> arity f
                      then Finished (Err NativeArityMismatch) vm
                      else
                        (let k = length (stack vm) - nat num_args
                         in call_native nf vm (drop k (stack vm))
                              (vm\<lparr>stack := butlast (take k (stack vm))\<rparr>))
                  | None \<Rightarrow>
                      (case start_ip f of
                         None \<Rightarrow> Finished (Err NoStartIp) vm
                       | Some target \<Rightarrow>
                           if num_args \<noteq> arity f then Finished (Err ArityMismatch) vm
                           else Continue
                                  (vm\<lparr>frames := frames vm @
                                        [\<lparr>return_ip = ip vm,
                                          stack_slot = nat (int (length (stack vm)) - 1 - num_args),
                                          env_depth = length (environments vm)\<rparr>],
                                      ip := target\<rparr>)))
             | Some _ \<Rightarrow> Finished (Err NotCallable) vm)
      | _ \<Rightarrow> Raised TypeError)"

text \<open>
  \<open>OP_RETURN\<close>: pop the return value; without a call frame it is the result of the
  program; otherwise pop the frame, restore \<open>ip\<close>, pop environments while there are
  more than \<open>env_depth\<close>, cut the operand stack at \<open>stack_slot\<close> and push the value.
\<close>

definition exec_return :: "VM \<Rightarrow> outcome" where
  "exec_return vm =
     (if stack vm = [] then Finished (Err (StackUnderflow OP_RETURN)) vm
      else
        (let return_value = last (stack vm);
             vm1 = vm\<lparr>stack := butlast (stack vm)\<rparr>
         in if frames vm1 = [] then Finished (Ok return_value) vm1
            else
              (let frame = last (frames vm1)
               in Continue
                    (vm1\<lparr>frames := butlast (frames vm1),
                         ip := return_ip frame,
                         environments := take (env_depth frame) (environments vm1),
                         stack := take (stack_slot frame) (stack vm1) @ [return_value]\<rparr>))))"

text \<open>
  \<open>OP_BUILD_KWARGS\<close> builds a host dictionary and \<open>OP_CALL_KW\<close> calls the callee the
  host's way; only their checks are described.
\<close>

definition exec_build_kwargs :: "Operand \<Rightarrow> VM \<Rightarrow> outcome" where
  "exec_build_kwargs opd vm =
     (case opd of
        IntOperand num_kwargs \<Rightarrow>
          if int (length (stack vm)) < num_kwargs + 1
          then Finished (Err (StackUnderflow OP_BUILD_KWARGS)) vm
          else Unmodelled
      | _ \<Rightarrow> Raised TypeError)"

definition exec_call_kw :: "Operand \<Rightarrow> VM \<Rightarrow> outcome" where
  "exec_call_kw opd vm =
     (case opd of
        PairOperand num_args num_kwargs \<Rightarrow>
          if int (length (stack vm)) < num_args + 2
          then Finished (Err (StackUnderflow OP_CALL_KW)) vm
          else Unmodelled
      | _ \<Rightarrow> Raised TypeError)"

definition exec_halt :: "VM \<Rightarrow> outcome" where
  "exec_halt vm = Finished (Ok (if stack vm = [] then VNone else last (stack vm))) vm"

text \<open>The dispatch on the opcode.\<close>

definition exec_instr :: "pyval list \<Rightarrow> Instruction \<Rightarrow> VM \<Rightarrow> outcome" where
  "exec_instr consts instr vm =
     (let opd = operand instr
      in case opcode instr of
           OP_CONST \<Rightarrow> exec_const consts opd vm
         | OP_DEF_GLOBAL \<Rightarrow> exec_def_global False consts opd vm
         | OP_GET_GLOBAL \<Rightarrow> exec_get_global consts opd vm
         | OP_SET_GLOBAL \<Rightarrow> exec_set_global consts opd vm
         | OP_DEF_CONST_GLOBAL \<Rightarrow> exec_def_global True consts opd vm
         | OP_ADD \<Rightarrow> exec_add vm
         | OP_SUBTRACT \<Rightarrow> exec_subtract vm
         | OP_MULTIPLY \<Rightarrow> exec_multiply vm
         | OP_DIVIDE \<Rightarrow> exec_divide vm
         | OP_MODULO \<Rightarrow> exec_modulo vm
         | OP_NEGATE \<Rightarrow> exec_negate vm
         | OP_NOT \<Rightarrow> exec_not vm
         | OP_EQUAL \<Rightarrow> exec_equal OP_EQUAL False vm
         | OP_NOT_EQUAL \<Rightarrow> exec_equal OP_NOT_EQUAL True vm
         | OP_GREATER \<Rightarrow> exec_compare OP_GREATER True False vm
         | OP_GREATER_EQUAL \<Rightarrow> exec_compare OP_GREATER_EQUAL False True vm
         | OP_LESS \<Rightarrow> exec_compare OP_LESS False False vm
         | OP_LESS_EQUAL \<Rightarrow> exec_compare OP_LESS_EQUAL True True vm
         | OP_AND \<Rightarrow> exec_and vm
         | OP_OR \<Rightarrow> exec_or vm
         | OP_TRUE \<Rightarrow> Continue (push (VBool True) vm)
         | OP_FALSE \<Rightarrow> Continue (push (VBool False) vm)
         | OP_NONE \<Rightarrow> Continue (push VNone vm)
         | OP_BUILD_RANGE \<Rightarrow> exec_build_range vm
         | OP_ITER_NEW \<Rightarrow> exec_iter_new vm
         | OP_ITER_NEXT_OR_JUMP \<Rightarrow> exec_iter_next_or_jump opd vm
         | OP_BUILD_LIST \<Rightarrow> exec_build_list opd vm
         | OP_INDEX_GET \<Rightarrow> exec_index_get vm
         | OP_INDEX_SET \<Rightarrow> exec_index_set vm
         | OP_GET_ATTR \<Rightarrow> exec_get_attr vm
         | OP_ENTER_SCOPE \<Rightarrow> exec_enter_scope vm
         | OP_EXIT_SCOPE \<Rightarrow> exec_exit_scope vm
         | OP_DEF_LOCAL \<Rightarrow> exec_def_local False consts opd vm
         | OP_DEF_CONST_LOCAL \<Rightarrow> exec_def_local True consts opd vm
         | OP_GET_LOCAL \<Rightarrow> exec_get_local consts opd vm
         | OP_SET_LOCAL \<Rightarrow> exec_set_local consts opd vm
         | OP_JUMP_IF_FALSE \<Rightarrow> exec_jump_if_false opd vm
         | OP_JUMP \<Rightarrow> jump_to opd vm
         | OP_POP \<Rightarrow> exec_pop vm
         | OP_CALL \<Rightarrow> exec_call opd vm
         | OP_RETURN \<Rightarrow> exec_return vm
         | OP_BUILD_KWARGS \<Rightarrow> exec_build_kwargs opd vm
         | OP_CALL_KW \<Rightarrow> exec_call_kw opd vm
         | OP_HALT \<Rightarrow> exec_halt vm)"

text \<open>
  One iteration of the \<open>while True\<close> loop: leave the loop when \<open>ip\<close> is outside the
  chunk (the result is then the top of the stack or \<open>None\<close>), otherwise fetch,
  increment \<open>ip\<close> and execute.
\<close>

definition step :: "Instruction list \<Rightarrow> pyval list \<Rightarrow> VM \<Rightarrow> outcome" where
  "step chunk consts vm =
     (if 0 \<le> ip vm \<and> ip vm < int (length chunk)
      then exec_instr consts (chunk ! nat (ip vm)) (vm\<lparr>ip := ip vm + 1\<rparr>)
      else Finished (Ok (if stack vm = [] then VNone else last (stack vm))) vm)"

text \<open>
  The loop, with fuel: \<open>run n\<close> executes at most \<open>n\<close> instructions and is
  \<open>Continue\<close> when the loop has not been left by then.
\<close>

fun run :: "nat \<Rightarrow> Instruction list \<Rightarrow> pyval list \<Rightarrow> VM \<Rightarrow> outcome" where
  "run 0 chunk consts vm = Continue vm"
| "run (Suc n) chunk consts vm =
     (case step chunk consts vm of
        Continue vm1 \<Rightarrow> run n chunk consts vm1
      | out \<Rightarrow> out)"

text \<open>\<open>interpret\<close> resets the VM and runs the chunk.\<close>

definition initial_vm :: VM where
  "initial_vm = \<lparr>ip = 0, stack = [], globals = Map.empty, environments = [], frames = [],
                  list_objs = [], iter_objs = []\<rparr>"

definition vm_interpret :: "nat \<Rightarrow> Instruction list \<Rightarrow> pyval list \<Rightarrow> outcome" where
  "vm_interpret fuel chunk consts = run fuel chunk consts initial_vm"

section \<open>The pipeline of main.py and example programs\<close>

text \<open>
  \<open>main\<close> compiles the syntax tree and hands the chunk and the constants to
  \<open>interpret\<close>.
\<close>

datatype program_outcome = CompileFailed compile_error | Executed outcome

definition compile_and_run :: "nat \<Rightarrow> node \<Rightarrow> program_outcome" where
  "compile_and_run fuel ast =
     (case compile ast of
        Inl err \<Rightarrow> CompileFailed err
      | Inr (chunk, consts) \<Rightarrow> Executed (vm_interpret fuel chunk consts))"

text \<open>The \<open>Result\<close> that \<open>interpret\<close> returned, and the VM object afterwards.\<close>

fun result_of :: "program_outcome \<Rightarrow> result option" where
  "result_of (Executed (Finished r vm)) = Some r"
| "result_of out = None"

fun final_vm :: "program_outcome \<Rightarrow> VM option" where
  "final_vm (Executed (Finished r vm)) = Some vm"
| "final_vm out = None"

text \<open>The host exception that left \<open>interpret\<close>, if one did.\<close>

fun raised_by :: "program_outcome \<Rightarrow> host_exception option" where
  "raised_by (Executed (Raised ex)) = Some ex"
| "raised_by out = None"

text \<open>The opcodes a compiler state holds, or the exception.\<close>

fun emitted_opcodes :: "compile_error + Compiler \<Rightarrow> compile_error + OpCode list" where
  "emitted_opcodes (Inl err) = Inl err"
| "emitted_opcodes (Inr s) = Inr (map opcode (bytecode_chunk s))"

definition ident :: "string \<Rightarrow> Token" where
  "ident name = \<lparr>kind = T_IDENT, tvalue = name\<rparr>"

definition keyword :: "string \<Rightarrow> Token" where
  "keyword w = \<lparr>kind = T_KEYWORD, tvalue = w\<rparr>"

definition op_token :: "TokenType \<Rightarrow> Token" where
  "op_token k = \<lparr>kind = k, tvalue = kind_name k\<rparr>"

text \<open>A compiler whose constant pool holds the name \<open>x\<close> and the integer \<open>1\<close>.\<close>

definition pool1 :: Compiler where
  "pool1 = new_compiler\<lparr>constants := [VStr ''x'', VInt 1]\<rparr>"



text \<open>The object that \<open>Compiler()\<close> returns: \<open>__init__\<close> has emitted the initialisers
  of the registry and the scope depth is 0.\<close>

definition fresh_compiler :: Compiler where
  "fresh_compiler = initialize_builtins BUILTINS new_compiler"



text \<open>\<open>true or false\<close> and \<open>true and false\<close>, as expressions and as one-statement programs.\<close>

definition or_expr :: node where
  "or_expr = LogicalOp (Boolean True) (keyword ''or'') (Boolean False)"

definition and_expr :: node where
  "and_expr = LogicalOp (Boolean True) (keyword ''and'') (Boolean False)"

text \<open>\<open>let a = [1, 2, 3];  a[1] = 10\<close> (the statements of scenario S7).\<close>

definition index_assign_program :: node where
  "index_assign_program =
     Block None
       [VarDeclareStmt (ident ''a'')
          (Some (ArrayLiteral [Number (VInt 1), Number (VInt 2), Number (VInt 3)])) False,
        AssignIndexStmt (VariableExpr (ident ''a'')) (Number (VInt 1)) (Number (VInt 10))]"




text \<open>\<open>"a" - "b"\<close> and \<open>"ab" * 2\<close> as one-statement programs.\<close>

definition sub_strings_program :: node where
  "sub_strings_program = Block None [BinaryOp (String ''a'') (op_token T_MINUS) (String ''b'')]"

definition mul_string_program :: node where
  "mul_string_program = Block None [BinaryOp (String ''ab'') (op_token T_MUL) (Number (VInt 2))]"

text \<open>The VM after an instruction that lets the loop go on.\<close>

fun next_vm :: "outcome \<Rightarrow> VM option" where
  "next_vm (Continue vm) = Some vm"
| "next_vm out = None"

text \<open>A VM with the given operand stack and nothing else.\<close>

definition vm_with_stack :: "pyval list \<Rightarrow> VM" where
  "vm_with_stack st = initial_vm\<lparr>stack := st\<rparr>"

text \<open>
  A VM inside a call: one call frame, two environments, the callee, an argument and the
  return value on the operand stack.
\<close>

definition vm_in_call :: VM where
  "vm_in_call =
     initial_vm\<lparr>ip := 40, stack := [VInt 5, VNone, VInt 6, VInt 7],
                environments := [Map.empty, Map.empty, Map.empty],
                frames := [\<lparr>return_ip = 20, stack_slot = 1, env_depth = 2\<rparr>]\<rparr>"

text \<open>The same with fewer environments than the frame recorded, and with no operand.\<close>

definition vm_few_envs :: VM where
  "vm_few_envs = vm_in_call\<lparr>environments := [Map.empty]\<rparr>"

definition vm_no_operand :: VM where
  "vm_no_operand = vm_in_call\<lparr>stack := []\<rparr>"

text \<open>A VM holding one list object, referenced from the top of the operand stack.\<close>

definition vm_with_list :: VM where
  "vm_with_list = initial_vm\<lparr>stack := [VRef 0], list_objs := [[VInt 1, VInt 2]]\<rparr>"


text \<open>The kind of an outcome.\<close>

fun continues :: "outcome \<Rightarrow> bool" where
  "continues (Continue vm) = True"
| "continues out = False"


section \<open>Predicates used to state invariants\<close>

text \<open>No two entries of a constant pool are equal (\<open>==\<close>).\<close>

definition deduplicated :: "pyval list \<Rightarrow> bool" where
  "deduplicated cs \<longleftrightarrow> (\<forall>i < length cs. \<forall>j < i. \<not> py_eq (cs ! j) (cs ! i))"

text \<open>The opcodes that define or assign a global, and the opcodes whose operand is patched.\<close>

definition global_op :: "OpCode \<Rightarrow> bool" where
  "global_op opc \<longleftrightarrow> opc = OP_DEF_GLOBAL \<or> opc = OP_DEF_CONST_GLOBAL \<or> opc = OP_SET_GLOBAL"

definition jump_op :: "OpCode \<Rightarrow> bool" where
  "jump_op opc \<longleftrightarrow> opc = OP_JUMP \<or> opc = OP_JUMP_IF_FALSE \<or> opc = OP_ITER_NEXT_OR_JUMP"

text \<open>
  \<open>extends s s'\<close>: the chunk of \<open>s'\<close> is the chunk of \<open>s\<close> with the operands of some
  jump instructions changed and with instructions appended, none of which defines or
  assigns a global; the constant pool of \<open>s'\<close> is that of \<open>s\<close> with constants appended.
\<close>

definition extends :: "Compiler \<Rightarrow> Compiler \<Rightarrow> bool" where
  "extends s s' \<longleftrightarrow>
     length (bytecode_chunk s) \<le> length (bytecode_chunk s')
     \<and> (\<forall>i < length (bytecode_chunk s).
           opcode (bytecode_chunk s' ! i) = opcode (bytecode_chunk s ! i)
           \<and> (\<not> jump_op (opcode (bytecode_chunk s ! i))
                \<longrightarrow> bytecode_chunk s' ! i = bytecode_chunk s ! i))
     \<and> (\<forall>i. length (bytecode_chunk s) \<le> i \<and> i < length (bytecode_chunk s')
           \<longrightarrow> \<not> global_op (opcode (bytecode_chunk s' ! i)))
     \<and> (\<exists>cs. constants s' = constants s @ cs)"

text \<open>Every index recorded for patching is the index of an \<open>OP_JUMP\<close> of the chunk.\<close>

definition patches_ok :: "Compiler \<Rightarrow> bool" where
  "patches_ok s \<longleftrightarrow>
     (\<forall>l \<in> set (loop_start_patches s) \<union> set (loop_end_patches s).
        \<forall>i \<in> set l. i < length (bytecode_chunk s)
                    \<and> opcode (bytecode_chunk s ! i) = OP_JUMP)"


definition visit_post :: "Compiler \<Rightarrow> Compiler \<Rightarrow> bool" where
  "visit_post s s' \<longleftrightarrow> scope_depth s' = scope_depth s \<and> extends s s' \<and> patches_ok s'"





text \<open>
  The states of a run: \<open>reach chunk pool k vm\<close> says that \<open>vm\<close> is the VM object
  after \<open>k\<close> iterations of the loop of \<open>_run\<close>, started by \<open>interpret\<close>.  An
  iteration that \<open>step\<close> describes leads to the state \<open>step\<close> gives.  An iteration
  that calls into the host (\<open>step\<close> is \<open>Unmodelled\<close>: attribute access, a keyword
  call, a slice, string formatting, a comparison of list objects, the natives \<open>scan\<close>,
  \<open>perf_counter\<close>, \<open>importpy\<close> and \<open>get_attr\<close>) and is none of the three
  instructions that store into \<open>self.globals\<close> leads to a state of which only this is
  said: \<open>globals\<close> is as before.  No other branch of \<open>_run\<close> assigns or stores into
  \<open>self.globals\<close>; that the host code called there does not reach into the VM object
  itself is taken for granted.  This covers the iterations in which the host call makes
  \<open>_run\<close> return an error.
\<close>

inductive reach :: "Instruction list \<Rightarrow> pyval list \<Rightarrow> nat \<Rightarrow> VM \<Rightarrow> bool"
  for chunk :: "Instruction list" and pool :: "pyval list"
where
  start: "reach chunk pool 0 initial_vm"
| modelled:
    "reach chunk pool k vm \<Longrightarrow> step chunk pool vm = Continue vm'
       \<Longrightarrow> reach chunk pool (Suc k) vm'"
| host:
    "reach chunk pool k vm \<Longrightarrow> step chunk pool vm = Unmodelled
       \<Longrightarrow> \<not> global_op (opcode (chunk ! nat (ip vm)))
       \<Longrightarrow> globals vm' = globals vm
       \<Longrightarrow> reach chunk pool (Suc k) vm'"

section \<open>Properties of the constant pool\<close>

lemma first_index_None: "first_index P xs = None \<longleftrightarrow> (\<forall>x \<in> set xs. \<not> P x)"
  by (induction xs) auto

lemma first_index_Some:
  "first_index P xs = Some i \<longleftrightarrow> i < length xs \<and> P (xs ! i) \<and> (\<forall>j < i. \<not> P (xs ! j))"
proof (induction xs arbitrary: i)
  case Nil
  show ?case by simp
next
  case (Cons x xs)
  show ?case
  proof (cases "P x")
    case True
    then show ?thesis by (cases i) auto
  next
    case False
    show ?thesis
    proof (cases i)
      case 0
      with False show ?thesis by auto
    next
      case (Suc k)
      have "(\<forall>j < Suc k. \<not> P ((x # xs) ! j)) \<longleftrightarrow> (\<forall>j < k. \<not> P (xs ! j))"
        using False by (auto simp: less_Suc_eq_0_disj)
      with False Suc Cons.IH [of k] show ?thesis by auto
    qed
  qed
qed

lemma first_index_cong_pred:
  "(\<And>x. x \<in> set xs \<Longrightarrow> P x = Q x) \<Longrightarrow> first_index P xs = first_index Q xs"
  by (induction xs) auto

lemma py_eq_refl: "py_eq v v"
  by (simp add: py_eq_def)

lemma py_eq_sym: "py_eq a b \<Longrightarrow> py_eq b a"
  by (simp add: py_eq_def)

lemma py_eq_trans: "py_eq a b \<Longrightarrow> py_eq b c \<Longrightarrow> py_eq a c"
  by (simp add: py_eq_def)

lemma py_eq_is_list: "py_eq c v \<Longrightarrow> is_list v \<Longrightarrow> is_list c"
  by (cases v; cases c) (auto simp: py_eq_def split: if_splits)

lemma add_constant_pool_eq: "add_constant_pool v cs = index_or_append v cs"
proof (cases "is_list v")
  case False
  then show ?thesis by (simp add: add_constant_pool_def)
next
  case True
  have "first_index (\<lambda>c. is_list c \<and> py_eq c v) cs = first_index (\<lambda>c. py_eq c v) cs"
    by (rule first_index_cong_pred) (use True py_eq_is_list in blast)
  with True show ?thesis
    by (auto simp: add_constant_pool_def index_or_append_def split: option.splits)
qed


lemma index_or_append_Some:
  "first_index (\<lambda>c. py_eq c v) cs = Some i \<Longrightarrow> index_or_append v cs = (i, cs)"
  by (simp add: index_or_append_def)

lemma index_or_append_None:
  "first_index (\<lambda>c. py_eq c v) cs = None \<Longrightarrow> index_or_append v cs = (length cs, cs @ [v])"
  by (simp add: index_or_append_def)



lemma first_index_py_eq_cong:
  "py_eq v w \<Longrightarrow> first_index (\<lambda>c. py_eq c w) cs = first_index (\<lambda>c. py_eq c v) cs"
  by (rule first_index_cong_pred) (simp add: py_eq_def)

section \<open>The pool holds no two equal constants\<close>

lemma deduplicated_Nil: "deduplicated []"
  by (simp add: deduplicated_def)

lemma deduplicated_append:
  assumes "deduplicated cs" and "\<forall>c \<in> set cs. \<not> py_eq c v"
  shows "deduplicated (cs @ [v])"
  unfolding deduplicated_def
proof (intro allI impI)
  fix i j assume i: "i < length (cs @ [v])" and j: "j < i"
  show "\<not> py_eq ((cs @ [v]) ! j) ((cs @ [v]) ! i)"
  proof (cases "i < length cs")
    case True
    with assms(1) j show ?thesis by (simp add: deduplicated_def nth_append)
  next
    case False
    with i have "i = length cs" by simp
    with assms(2) j show ?thesis by (simp add: nth_append)
  qed
qed

lemma add_constant_pool_deduplicated:
  assumes "deduplicated cs"
  shows "deduplicated (snd (add_constant_pool v cs))"
proof (cases "first_index (\<lambda>c. py_eq c v) cs")
  case None
  then have "\<forall>c \<in> set cs. \<not> py_eq c v" by (simp add: first_index_None)
  with assms have "deduplicated (cs @ [v])" by (rule deduplicated_append)
  with None show ?thesis by (simp add: add_constant_pool_eq index_or_append_None)
next
  case (Some i)
  with assms show ?thesis by (simp add: add_constant_pool_eq index_or_append_Some)
qed

lemma add_constant_deduplicated:
  "deduplicated (constants s) \<Longrightarrow> deduplicated (constants (snd (add_constant v s)))"
  using add_constant_pool_deduplicated [of "constants s" v]
  by (cases "add_constant_pool v (constants s)") (simp add: add_constant_def)

text \<open>In such a pool an entry is the first one equal to it.\<close>

lemma deduplicated_first:
  "deduplicated cs \<Longrightarrow> i < length cs \<Longrightarrow> \<forall>j < i. \<not> py_eq (cs ! j) (cs ! i)"
  by (simp add: deduplicated_def)

section \<open>Claims about the constant pool\<close>




text \<open>
  Claim C10.  The deduplication identifies numerically equal constants of different types:
  when the first entry equal to the integer \<open>n\<close> is the integer entry at index \<open>i\<close>,
  \<open>add_constant\<close> of the float of the same value returns \<open>i\<close> and appends nothing,
  a float literal of that value compiles to \<open>OP_CONST i\<close>, and for \<open>n = 1\<close> so does
  \<open>add_constant(True)\<close>.  In a pool built by \<open>add_constant\<close> no two entries are
  equal (\<open>add_constant_deduplicated\<close>), so there every integer entry is the first entry
  equal to it (\<open>deduplicated_first\<close>).
\<close>

theorem add_constant_numeric_dedup:
  assumes "i < length (constants s)" and "constants s ! i = VInt n"
    and "\<forall>j < i. \<not> py_eq (constants s ! j) (VInt n)"
  shows "add_constant (VFloat (of_int n)) s = (i, s)
         \<and> compile_node (Number (VFloat (of_int n))) s = Inr (emit OP_CONST (IntOperand (int i)) s)
         \<and> (n = 1 \<longrightarrow> add_constant (VBool True) s = (i, s))"
proof -
  have eqf: "py_eq (VInt n) (VFloat (of_int n))" by (simp add: py_eq_def)
  have "first_index (\<lambda>c. py_eq c (VInt n)) (constants s) = Some i"
    using assms by (simp add: first_index_Some py_eq_refl)
  then have f: "first_index (\<lambda>c. py_eq c (VFloat (of_int n))) (constants s) = Some i"
    using eqf by (simp add: first_index_py_eq_cong)
  then have a: "add_constant (VFloat (of_int n)) s = (i, s)"
    by (simp add: add_constant_def add_constant_pool_eq index_or_append_Some)
  then have b: "compile_node (Number (VFloat (of_int n))) s = Inr (emit OP_CONST (IntOperand (int i)) s)"
    by (simp add: emit_const_def)
  have c: "n = 1 \<longrightarrow> add_constant (VBool True) s = (i, s)"
  proof
    assume "n = 1"
    then have "canon (VBool True) = canon (VFloat (of_int n))" by simp
    then have "first_index (\<lambda>c. py_eq c (VBool True)) (constants s) = Some i"
      using f by (simp add: py_eq_def)
    then show "add_constant (VBool True) s = (i, s)"
      by (simp add: add_constant_def add_constant_pool_eq index_or_append_Some)
  qed
  from a b c show ?thesis by simp
qed

theorem add_constant_numeric_dedup_witness:
  "add_constant (VFloat 1) pool1 = (1, pool1)
   \<and> compile_node (Number (VFloat 1)) pool1 = Inr (emit OP_CONST (IntOperand 1) pool1)
   \<and> add_constant (VBool True) pool1 = (1, pool1)
   \<and> constants pool1 = [VStr ''x'', VInt 1]"
proof -
  have h1: "(1::nat) < length (constants pool1)" by (simp add: pool1_def)
  have h2: "constants pool1 ! 1 = VInt 1" by (simp add: pool1_def)
  have h3: "\<forall>j < (1::nat). \<not> py_eq (constants pool1 ! j) (VInt 1)"
    by (simp add: pool1_def py_eq_def)
  from add_constant_numeric_dedup [OF h1 h2 h3] show ?thesis by (simp add: pool1_def)
qed

section \<open>Claims settled on the compiler and on single instructions\<close>







text \<open>
  Claim C2.  The claim: the code of the left operand of \<open>or\<close> is emitted exactly once.
  The code: \<open>visit_LogicalOp\<close> compiles the left operand twice in its \<open>or\<close> branch
  (the \<open>and\<close> branch compiles it once), so \<open>true or false\<close> becomes
  \<open>OP_TRUE; OP_TRUE; OP_FALSE; OP_OR\<close>, and since \<open>OP_OR\<close> pops two values, a
  value stays on the operand stack after the statement.
\<close>

theorem or_compiles_left_operand_twice:
  "emitted_opcodes (compile_node or_expr new_compiler)
     = Inr [OP_TRUE, OP_TRUE, OP_FALSE, OP_OR]
   \<and> emitted_opcodes (compile_node and_expr new_compiler) = Inr [OP_TRUE, OP_FALSE, OP_AND]
   \<and> map_option stack (final_vm (compile_and_run 21 (Block None [or_expr]))) = Some [VBool True]
   \<and> map_option stack (final_vm (compile_and_run 20 (Block None [and_expr]))) = Some []"
  by code_simp

text \<open>
  Claim C3.  The claim: the operand stack is empty after every top-level statement, the
  compiler emits \<open>OP_POP\<close> also after an index assignment, and all three stacks are
  empty when \<open>interpret\<close> returns \<open>Ok\<close>.  The code: \<open>visit_Block\<close> emits
  \<open>OP_POP\<close> after instances of \<open>Expr\<close> only; \<open>AssignIndexStmt\<close> is a \<open>Stmt\<close>,
  so nothing follows its \<open>OP_INDEX_SET\<close>, which pushes the assigned value back.  For
  \<open>let a = [1, 2, 3]; a[1] = 10\<close> the value \<open>10\<close> is on the operand stack when
  \<open>interpret\<close> returns \<open>Ok(None)\<close>.
\<close>

theorem index_assignment_leaves_value_on_stack:
  "emitted_opcodes (compile_node index_assign_program compile_prelude)
     = Inr (map opcode (bytecode_chunk compile_prelude) @
            [OP_CONST, OP_CONST, OP_CONST, OP_BUILD_LIST, OP_DEF_LOCAL,
             OP_GET_LOCAL, OP_CONST, OP_CONST, OP_INDEX_SET])
   \<and> result_of (compile_and_run 25 index_assign_program) = Some (Ok VNone)
   \<and> map_option stack (final_vm (compile_and_run 25 index_assign_program)) = Some [VInt 10]
   \<and> map_option list_objs (final_vm (compile_and_run 25 index_assign_program))
       = Some [[VInt 1, VInt 10, VInt 3]]"
  by code_simp


text \<open>
  Claim C8.  The claim: a non-numeric operand of \<open>SUB\<close>, \<open>MUL\<close>, \<open>DIV\<close>,
  \<open>MOD\<close> or \<open>NEGATE\<close> yields a runtime error returned as \<open>Err\<close>, never thrown.
  The code: \<open>OP_NEGATE\<close> (like \<open>OP_ADD\<close>) checks the types and returns \<open>Err\<close>,
  but the other four apply the host operator unchecked and outside any \<open>try\<close>:
  \<open>"a" - "b"\<close> raises the host's \<open>TypeError\<close> out of \<open>interpret\<close>, and
  \<open>"ab" * 2\<close> is no error at all.
\<close>

theorem subtract_of_strings_raises_host_exception:
  "raised_by (compile_and_run 20 sub_strings_program) = Some TypeError
   \<and> exec_instr [] \<lparr>opcode = OP_SUBTRACT, operand = NoOperand\<rparr>
        (vm_with_stack [VStr ''a'', VStr ''b'']) = Raised TypeError
   \<and> exec_instr [] \<lparr>opcode = OP_MULTIPLY, operand = NoOperand\<rparr>
        (vm_with_stack [VStr ''ab'', VInt 2]) = Continue (vm_with_stack [VStr ''abab''])
   \<and> exec_instr [] \<lparr>opcode = OP_NEGATE, operand = NoOperand\<rparr> (vm_with_stack [VStr ''a''])
        = Finished (Err NegateOperandNotNumber) (vm_with_stack [])"
proof -
  have a: "raised_by (compile_and_run 20 sub_strings_program) = Some TypeError"
    by code_simp
  have b: "exec_instr [] \<lparr>opcode = OP_SUBTRACT, operand = NoOperand\<rparr>
        (vm_with_stack [VStr ''a'', VStr ''b'']) = Raised TypeError"
    by (simp add: exec_instr_def exec_subtract_def binop_def vm_with_stack_def)
  have c: "exec_instr [] \<lparr>opcode = OP_MULTIPLY, operand = NoOperand\<rparr>
        (vm_with_stack [VStr ''ab'', VInt 2]) = Continue (vm_with_stack [VStr ''abab''])"
    by (simp add: exec_instr_def exec_multiply_def binop_def vm_with_stack_def push_def
          push_str_def repeat_seq_def numeral_2_eq_2)
  have d: "exec_instr [] \<lparr>opcode = OP_NEGATE, operand = NoOperand\<rparr> (vm_with_stack [VStr ''a''])
        = Finished (Err NegateOperandNotNumber) (vm_with_stack [])"
    by (simp add: exec_instr_def exec_negate_def vm_with_stack_def)
  from a b c d show ?thesis by simp
qed

text \<open>
  Claim C4 (as stated): \<open>ITER_NEW\<close> raises a runtime type error for every value that
  is not a List or a Range.  A string is iterable: \<open>iter\<close> is the host's.
\<close>

theorem iter_new_accepts_string:
  "exec_instr [] \<lparr>opcode = OP_ITER_NEW, operand = NoOperand\<rparr> (vm_with_stack [VStr ''ab''])
     = Continue (initial_vm\<lparr>stack := [VIter 0], iter_objs := [StrIter ''ab'' 0]\<rparr>)"
  by (simp add: exec_instr_def exec_iter_new_def vm_with_stack_def push_new_iter_def push_def
        initial_vm_def)

text \<open>
  Claim C4 (amended).  \<open>ITER_NEW\<close> pops \<open>v\<close> and pushes a new iterator over it when
  \<open>v\<close> is a list, a string, or a Range whose start, end and step are integers (or
  booleans) and whose step is not zero; it pushes \<open>v\<close> itself back when \<open>v\<close> is an
  iterator; it returns the runtime error \<open>Err\<close> (not iterable) when \<open>v\<close> is a number,
  a boolean, \<open>None\<close>, a function, or a Range one of whose fields is not an integer.
\<close>

theorem iter_new_by_kind_of_value:
  assumes "stack vm \<noteq> []"
    and "last (stack vm) = v"
    and "vm1 = vm\<lparr>stack := butlast (stack vm)\<rparr>"
    and "new_it = VIter (length (iter_objs vm))"
  shows
    "(\<forall>xs. v = VList xs \<longrightarrow>
        exec_iter_new vm = Continue (vm1\<lparr>stack := stack vm1 @ [new_it],
                                        iter_objs := iter_objs vm @ [ConstListIter xs 0]\<rparr>))
     \<and> (\<forall>r. v = VRef r \<and> r < length (list_objs vm) \<longrightarrow>
        exec_iter_new vm = Continue (vm1\<lparr>stack := stack vm1 @ [new_it],
                                        iter_objs := iter_objs vm @ [ListIter r 0]\<rparr>))
     \<and> (\<forall>s. v = VStr s \<longrightarrow>
        exec_iter_new vm = Continue (vm1\<lparr>stack := stack vm1 @ [new_it],
                                        iter_objs := iter_objs vm @ [StrIter s 0]\<rparr>))
     \<and> (\<forall>a b c i j k. v = VRange a b c \<and> as_index a = Some i \<and> as_index b = Some j
            \<and> as_index c = Some k \<and> k \<noteq> 0 \<longrightarrow>
        exec_iter_new vm = Continue (vm1\<lparr>stack := stack vm1 @ [new_it],
                                        iter_objs := iter_objs vm @ [RangeIter i j k]\<rparr>))
     \<and> (\<forall>i. v = VIter i \<longrightarrow>
        exec_iter_new vm = Continue (vm1\<lparr>stack := stack vm1 @ [VIter i]\<rparr>))
     \<and> (\<forall>a b c. v = VRange a b c
            \<and> (as_index a = None \<or> as_index b = None \<or> as_index c = None) \<longrightarrow>
        exec_iter_new vm = Finished (Err NotIterable) vm1)
     \<and> (as_num v \<noteq> None \<or> v = VNone \<or> (\<exists>f. v = VFunc f) \<longrightarrow>
        exec_iter_new vm = Finished (Err NotIterable) vm1)"
  using assms
  by (cases v)
     (auto simp: exec_iter_new_def push_new_iter_def push_def Let_def split: option.splits)

theorem iter_new_by_kind_of_value_witness:
  "exec_iter_new vm_with_list
     = Continue (vm_with_list\<lparr>stack := [VIter 0], iter_objs := [ListIter 0 0]\<rparr>)
   \<and> exec_iter_new (vm_with_stack [VList [VStr ''k'']])
     = Continue ((vm_with_stack [])\<lparr>stack := [VIter 0],
                                     iter_objs := [ConstListIter [VStr ''k''] 0]\<rparr>)
   \<and> exec_iter_new (vm_with_stack [VStr ''ab''])
     = Continue ((vm_with_stack [])\<lparr>stack := [VIter 0], iter_objs := [StrIter ''ab'' 0]\<rparr>)
   \<and> exec_iter_new (vm_with_stack [VRange (VInt 1) (VInt 5) (VInt 1)])
     = Continue ((vm_with_stack [])\<lparr>stack := [VIter 0], iter_objs := [RangeIter 1 5 1]\<rparr>)
   \<and> exec_iter_new (vm_with_stack [VIter 3]) = Continue (vm_with_stack [VIter 3])
   \<and> exec_iter_new (vm_with_stack [VRange (VInt 1) (VStr ''z'') (VInt 1)])
     = Finished (Err NotIterable) (vm_with_stack [])
   \<and> exec_iter_new (vm_with_stack [VInt 5]) = Finished (Err NotIterable) (vm_with_stack [])"
proof -
  have ne: "\<And>st. st \<noteq> [] \<Longrightarrow> stack (vm_with_stack st) \<noteq> []"
    by (simp add: vm_with_stack_def)
  have nl: "stack vm_with_list \<noteq> []" by (simp add: vm_with_list_def)
  note a = iter_new_by_kind_of_value [OF nl refl refl refl]
  note b = iter_new_by_kind_of_value [OF ne refl refl refl, of "[VList [VStr ''k'']]"]
  note c = iter_new_by_kind_of_value [OF ne refl refl refl, of "[VStr ''ab'']"]
  note d = iter_new_by_kind_of_value [OF ne refl refl refl,
             of "[VRange (VInt 1) (VInt 5) (VInt 1)]"]
  note e = iter_new_by_kind_of_value [OF ne refl refl refl, of "[VIter 3]"]
  note f = iter_new_by_kind_of_value [OF ne refl refl refl,
             of "[VRange (VInt 1) (VStr ''z'') (VInt 1)]"]
  note g = iter_new_by_kind_of_value [OF ne refl refl refl, of "[VInt 5]"]
  have a': "exec_iter_new vm_with_list
     = Continue (vm_with_list\<lparr>stack := [VIter 0], iter_objs := [ListIter 0 0]\<rparr>)"
    using a by (simp add: vm_with_list_def initial_vm_def)
  have b': "exec_iter_new (vm_with_stack [VList [VStr ''k'']])
     = Continue ((vm_with_stack [])\<lparr>stack := [VIter 0],
                                     iter_objs := [ConstListIter [VStr ''k''] 0]\<rparr>)"
    using b by (simp add: vm_with_stack_def initial_vm_def)
  have c': "exec_iter_new (vm_with_stack [VStr ''ab''])
     = Continue ((vm_with_stack [])\<lparr>stack := [VIter 0], iter_objs := [StrIter ''ab'' 0]\<rparr>)"
    using c by (simp add: vm_with_stack_def initial_vm_def)
  have d': "exec_iter_new (vm_with_stack [VRange (VInt 1) (VInt 5) (VInt 1)])
     = Continue ((vm_with_stack [])\<lparr>stack := [VIter 0], iter_objs := [RangeIter 1 5 1]\<rparr>)"
    using d by (simp add: vm_with_stack_def initial_vm_def)
  have e': "exec_iter_new (vm_with_stack [VIter 3]) = Continue (vm_with_stack [VIter 3])"
    using e by (simp add: vm_with_stack_def initial_vm_def)
  have f': "exec_iter_new (vm_with_stack [VRange (VInt 1) (VStr ''z'') (VInt 1)])
     = Finished (Err NotIterable) (vm_with_stack [])"
    using f by (simp add: vm_with_stack_def initial_vm_def)
  have g': "exec_iter_new (vm_with_stack [VInt 5]) = Finished (Err NotIterable) (vm_with_stack [])"
    using g by (simp add: vm_with_stack_def initial_vm_def)
  from a' b' c' d' e' f' g' show ?thesis by simp
qed

text \<open>
  Claim C6 (as stated): every execution of \<open>OP_RETURN\<close> with a non-empty call-frame
  stack pops the return value, and pops environments until their count equals the frame's
  \<open>env_depth\<close>.  With an empty operand stack \<open>OP_RETURN\<close> returns the stack
  underflow error and changes nothing; with fewer environments than \<open>env_depth\<close> it
  pops none, and their count stays below \<open>env_depth\<close>.
\<close>

theorem return_without_operand_or_with_few_environments:
  "exec_instr [] \<lparr>opcode = OP_RETURN, operand = NoOperand\<rparr> vm_no_operand
     = Finished (Err (StackUnderflow OP_RETURN)) vm_no_operand
   \<and> frames vm_no_operand \<noteq> []
   \<and> map_option (length \<circ> environments)
        (next_vm (exec_instr [] \<lparr>opcode = OP_RETURN, operand = NoOperand\<rparr> vm_few_envs))
       = Some 1
   \<and> env_depth (last (frames vm_few_envs)) = 2"
  by (simp add: exec_instr_def exec_return_def vm_no_operand_def vm_few_envs_def vm_in_call_def
        initial_vm_def Let_def)

text \<open>
  Claim C6 (amended).  For every execution of \<open>OP_RETURN\<close> with a non-empty operand
  stack and a non-empty call-frame stack, the VM pops the top value as the return value,
  pops the frame, sets \<open>ip\<close> to the frame's \<open>return_ip\<close>, pops environments while
  there are more than the frame's \<open>env_depth\<close> (so that their count equals
  \<open>env_depth\<close> whenever it was at least that), truncates the operand stack to the
  frame's stack base, and then pushes the return value.
\<close>

theorem return_restores_the_caller:
  assumes "opcode instr = OP_RETURN"
    and "stack vm \<noteq> []"
    and "frames vm \<noteq> []"
    and "frame = last (frames vm)"
  shows "\<exists>vm'. exec_instr cs instr vm = Continue vm'
           \<and> frames vm' = butlast (frames vm)
           \<and> ip vm' = return_ip frame
           \<and> environments vm' = take (env_depth frame) (environments vm)
           \<and> (env_depth frame \<le> length (environments vm)
                \<longrightarrow> length (environments vm') = env_depth frame)
           \<and> stack vm' = take (stack_slot frame) (butlast (stack vm)) @ [last (stack vm)]
           \<and> globals vm' = globals vm \<and> list_objs vm' = list_objs vm
           \<and> iter_objs vm' = iter_objs vm"
  using assms by (simp add: exec_instr_def exec_return_def Let_def)

theorem return_restores_the_caller_witness:
  "opcode \<lparr>opcode = OP_RETURN, operand = NoOperand\<rparr> = OP_RETURN
   \<and> stack vm_in_call \<noteq> [] \<and> frames vm_in_call \<noteq> []
   \<and> (\<exists>vm'. exec_instr [] \<lparr>opcode = OP_RETURN, operand = NoOperand\<rparr> vm_in_call = Continue vm'
          \<and> frames vm' = [] \<and> ip vm' = 20 \<and> length (environments vm') = 2
          \<and> stack vm' = [VInt 5, VInt 7])"
proof -
  have h1: "opcode \<lparr>opcode = OP_RETURN, operand = NoOperand\<rparr> = OP_RETURN" by simp
  have h2: "stack vm_in_call \<noteq> []" by (simp add: vm_in_call_def)
  have h3: "frames vm_in_call \<noteq> []" by (simp add: vm_in_call_def)
  from return_restores_the_caller [OF h1 h2 h3 refl, of "[]"]
  obtain vm' where
    "exec_instr [] \<lparr>opcode = OP_RETURN, operand = NoOperand\<rparr> vm_in_call = Continue vm'"
    "frames vm' = butlast (frames vm_in_call)"
    "ip vm' = return_ip (last (frames vm_in_call))"
    "environments vm' = take (env_depth (last (frames vm_in_call))) (environments vm_in_call)"
    "stack vm' = take (stack_slot (last (frames vm_in_call))) (butlast (stack vm_in_call))
                   @ [last (stack vm_in_call)]"
    by blast
  then have "exec_instr [] \<lparr>opcode = OP_RETURN, operand = NoOperand\<rparr> vm_in_call = Continue vm'
          \<and> frames vm' = [] \<and> ip vm' = 20 \<and> length (environments vm') = 2
          \<and> stack vm' = [VInt 5, VInt 7]"
    by (simp add: vm_in_call_def)
  with h1 h2 h3 show ?thesis by blast
qed

section \<open>The compiler never leaves the main scope\<close>

lemma emit_simps [simp]:
  "bytecode_chunk (emit opc opd s) = bytecode_chunk s @ [\<lparr>opcode = opc, operand = opd\<rparr>]"
  "constants (emit opc opd s) = constants s"
  "scope_depth (emit opc opd s) = scope_depth s"
  "loop_level (emit opc opd s) = loop_level s"
  "loop_start_patches (emit opc opd s) = loop_start_patches s"
  "loop_end_patches (emit opc opd s) = loop_end_patches s"
  by (simp_all add: emit_def emit_instruction_def)





lemma extends_fields [simp]:
  "extends s (s'\<lparr>scope_depth := d\<rparr>) = extends s s'"
  "extends s (s'\<lparr>loop_level := n\<rparr>) = extends s s'"
  "extends s (s'\<lparr>loop_start_patches := p\<rparr>) = extends s s'"
  "extends s (s'\<lparr>loop_end_patches := p\<rparr>) = extends s s'"
  "extends (s\<lparr>scope_depth := d\<rparr>) s' = extends s s'"
  "extends (s\<lparr>loop_level := n\<rparr>) s' = extends s s'"
  "extends (s\<lparr>loop_start_patches := p\<rparr>) s' = extends s s'"
  "extends (s\<lparr>loop_end_patches := p\<rparr>) s' = extends s s'"
  by (simp_all add: extends_def)

lemma patches_ok_fields [simp]:
  "patches_ok (s\<lparr>scope_depth := d\<rparr>) = patches_ok s"
  "patches_ok (s\<lparr>loop_level := n\<rparr>) = patches_ok s"
  "patches_ok (s\<lparr>constants := cs\<rparr>) = patches_ok s"
  by (simp_all add: patches_ok_def)


lemma patches_ok_extends:
  assumes "patches_ok s" and "extends s s'"
    and "loop_start_patches s' = loop_start_patches s"
    and "loop_end_patches s' = loop_end_patches s"
  shows "patches_ok s'"
  unfolding patches_ok_def
proof (intro ballI)
  fix l i
  assume l: "l \<in> set (loop_start_patches s') \<union> set (loop_end_patches s')" and i: "i \<in> set l"
  with assms have a: "i < length (bytecode_chunk s)"
    and b: "opcode (bytecode_chunk s ! i) = OP_JUMP"
    by (auto simp: patches_ok_def)
  from assms(2) a have "length (bytecode_chunk s) \<le> length (bytecode_chunk s')"
    and "opcode (bytecode_chunk s' ! i) = opcode (bytecode_chunk s ! i)"
    by (simp_all add: extends_def)
  with a b show "i < length (bytecode_chunk s') \<and> opcode (bytecode_chunk s' ! i) = OP_JUMP"
    by simp
qed
















lemma post_length:
  "visit_post s s' \<Longrightarrow> length (bytecode_chunk s) \<le> length (bytecode_chunk s')"
  by (simp add: visit_post_def extends_def)



lemma patches_ok_sub:
  assumes "patches_ok a" and "bytecode_chunk b = bytecode_chunk a"
    and "set (loop_start_patches b) \<subseteq> insert [] (set (loop_start_patches a))"
    and "set (loop_end_patches b) \<subseteq> insert [] (set (loop_end_patches a))"
  shows "patches_ok b"
  unfolding patches_ok_def
proof (intro ballI)
  fix l i
  assume l: "l \<in> set (loop_start_patches b) \<union> set (loop_end_patches b)" and i: "i \<in> set l"
  from i have "l \<noteq> []" by auto
  with l assms(3,4) have "l \<in> set (loop_start_patches a) \<union> set (loop_end_patches a)"
    by auto
  with assms(1) i have "i < length (bytecode_chunk a) \<and> opcode (bytecode_chunk a ! i) = OP_JUMP"
    by (simp add: patches_ok_def)
  with assms(2) show "i < length (bytecode_chunk b) \<and> opcode (bytecode_chunk b ! i) = OP_JUMP"
    by simp
qed

lemma set_butlast_subset: "set (butlast xs) \<subseteq> insert y (set xs)"
  by (auto dest: in_set_butlastD)

text \<open>A visit that changes the scope depth and the patch stacks only in between.\<close>

lemma post_frame:
  assumes "visit_post a b"
    and "bytecode_chunk a = bytecode_chunk s" and "constants a = constants s"
    and "bytecode_chunk s' = bytecode_chunk b" and "constants s' = constants b"
    and "scope_depth s' = scope_depth s"
    and "set (loop_start_patches s') \<subseteq> insert [] (set (loop_start_patches b))"
    and "set (loop_end_patches s') \<subseteq> insert [] (set (loop_end_patches b))"
  shows "visit_post s s'"
proof -
  from assms(1) have e: "extends a b" and ok: "patches_ok b" by (simp_all add: visit_post_def)
  from e assms(2,3) have "extends s b" by (simp add: extends_def)
  then have "extends s s'" using assms(4,5) by (simp add: extends_def)
  moreover have "patches_ok s'" using ok assms(4,7,8) by (rule patches_ok_sub)
  ultimately show ?thesis using assms(6) by (simp add: visit_post_def)
qed














lemma not_global [simp]:
  "\<not> global_op OP_CONST" "\<not> global_op OP_TRUE" "\<not> global_op OP_FALSE"
  "\<not> global_op OP_GET_LOCAL" "\<not> global_op OP_GET_GLOBAL" "\<not> global_op OP_NEGATE"
  "\<not> global_op OP_NOT" "\<not> global_op OP_DEF_LOCAL" "\<not> global_op OP_DEF_CONST_LOCAL"
  "\<not> global_op OP_SET_LOCAL" "\<not> global_op OP_JUMP_IF_FALSE" "\<not> global_op OP_JUMP"
  "\<not> global_op OP_BUILD_RANGE" "\<not> global_op OP_ENTER_SCOPE" "\<not> global_op OP_EXIT_SCOPE"
  "\<not> global_op OP_ITER_NEW" "\<not> global_op OP_ITER_NEXT_OR_JUMP" "\<not> global_op OP_POP"
  "\<not> global_op OP_BUILD_LIST" "\<not> global_op OP_RETURN" "\<not> global_op OP_BUILD_KWARGS"
  "\<not> global_op OP_CALL_KW" "\<not> global_op OP_CALL" "\<not> global_op OP_INDEX_GET"
  "\<not> global_op OP_INDEX_SET" "\<not> global_op OP_GET_ATTR"
  by (simp_all add: global_op_def)


section \<open>The globals of the VM\<close>


lemma push_globals [simp]:
  "globals (push v vm) = globals vm"
  "globals (push_new_list xs vm) = globals vm"
  "globals (push_new_iter it vm) = globals vm"
  by (simp_all add: push_def push_new_list_def push_new_iter_def)






























lemma run_add:
  "run (m + n) chunk pool vm =
     (case run m chunk pool vm of Continue vm1 \<Rightarrow> run n chunk pool vm1 | out \<Rightarrow> out)"
proof (induction m arbitrary: vm)
  case 0
  show ?case by simp
next
  case (Suc m)
  show ?case by (cases "step chunk pool vm") (simp_all add: Suc.IH)
qed

section \<open>The prelude of every compiled chunk\<close>









section \<open>The states of a run\<close>

lemma run_Suc_right:
  "run (Suc k) chunk pool vm =
     (case run k chunk pool vm of Continue vm1 \<Rightarrow> step chunk pool vm1 | out \<Rightarrow> out)"
proof -
  have one: "run (Suc 0) chunk pool vm1 = step chunk pool vm1" for vm1
    by (cases "step chunk pool vm1") simp_all
  have "run (k + Suc 0) chunk pool vm =
     (case run k chunk pool vm of Continue vm1 \<Rightarrow> run (Suc 0) chunk pool vm1 | out \<Rightarrow> out)"
    by (rule run_add)
  then show ?thesis
    by (cases "run k chunk pool vm") (simp_all only: one outcome.case add_Suc_right add_0_right)
qed

lemma run_reach:
  "run k chunk pool initial_vm = Continue vm \<Longrightarrow> reach chunk pool k vm"
proof (induction k arbitrary: vm)
  case 0
  then show ?case by (simp add: reach.start)
next
  case (Suc k)
  from Suc.prems obtain vm1 where r: "run k chunk pool initial_vm = Continue vm1"
    and s: "step chunk pool vm1 = Continue vm"
    by (auto simp: run_Suc_right simp del: run.simps split: outcome.splits)
  from Suc.IH [OF r] s show ?case by (rule reach.modelled)
qed

lemma run_Finished_reach:
  "run k chunk pool initial_vm = Finished r vm' \<Longrightarrow>
     \<exists>j vm. j < k \<and> reach chunk pool j vm \<and> step chunk pool vm = Finished r vm'"
proof (induction k)
  case 0
  then show ?case by simp
next
  case (Suc k)
  show ?case
  proof (cases "run k chunk pool initial_vm")
    case (Continue vm1)
    with Suc.prems have "step chunk pool vm1 = Finished r vm'" by (simp add: run_Suc_right del: run.simps)
    with run_reach [OF Continue] show ?thesis by blast
  next
    case (Finished r1 vm1)
    with Suc.prems have "run k chunk pool initial_vm = Finished r vm'"
      by (simp add: run_Suc_right del: run.simps)
    from Suc.IH [OF this] show ?thesis by (auto intro: less_SucI)
  next
    case (Raised ex)
    with Suc.prems show ?thesis by (simp add: run_Suc_right del: run.simps)
  next
    case Unmodelled
    with Suc.prems show ?thesis by (simp add: run_Suc_right del: run.simps)
  qed
qed




section \<open>Claim C9: user code defines locals only\<close>






















end
